theory Spec2Isabelle
  imports Main
begin

section \<open>JavaScript values and errors\<close>

text \<open>
  The library is TypeScript running on a JavaScript engine. A JavaScript string is modelled
  by the bytes of its UTF-8 encoding (a \<open>char list\<close>), so \<open>TextEncoder.encode\<close> is the
  identity on the representation and the ASCII patterns the code searches for
  (\<open>'/topics/'\<close>) match at the same places. A thrown exception is a value of \<open>js_error\<close>; a
  function that may throw returns \<open>js_error + 'a\<close>.
\<close>

datatype js_error =
    Error string
  | TypeError string
  | SyntaxError string
  | DOMException string

fun message :: "js_error \<Rightarrow> string" where
  "message (Error m) = m"
| "message (TypeError m) = m"
| "message (SyntaxError m) = m"
| "message (DOMException m) = m"

text \<open>
  What \<open>JSON.parse\<close> returns and what \<open>JSON.stringify\<close> takes. An object is the list of its
  own properties in enumeration order. Numbers are the integral ones: the only numbers the
  code computes with are epoch seconds.
\<close>

datatype jsval =
    JUndefined
  | JNull
  | JBool bool
  | JNum int
  | JStr string
  | JArr "jsval list"
  | JObj "(string \<times> jsval) list"

text \<open>\<open>ToBoolean\<close>: what \<open>!x\<close>, \<open>x && y\<close> and \<open>x || y\<close> test.\<close>

fun truthy :: "jsval \<Rightarrow> bool" where
  "truthy JUndefined = False"
| "truthy JNull = False"
| "truthy (JBool b) = b"
| "truthy (JNum n) = (n \<noteq> 0)"
| "truthy (JStr s) = (s \<noteq> [])"
| "truthy (JArr _) = True"
| "truthy (JObj _) = True"

text \<open>
  Property read \<open>v.k\<close>, for a name \<open>k\<close> that no prototype defines (the code reads
  \<open>private_key\<close>, \<open>client_email\<close> and \<open>project_id\<close>): the own property of an object, \<open>undefined\<close>
  on any other value, and a \<open>TypeError\<close> on \<open>null\<close> and \<open>undefined\<close> (the wording of its
  message is the engine's).
\<close>

fun own_property :: "jsval \<Rightarrow> string \<Rightarrow> jsval" where
  "own_property (JObj kvs) k = (case map_of kvs k of None \<Rightarrow> JUndefined | Some v \<Rightarrow> v)"
| "own_property _ k = JUndefined"

fun Get :: "jsval \<Rightarrow> string \<Rightarrow> js_error + jsval" where
  "Get JNull k = Inl (TypeError (''Cannot read properties of null (reading '' @ k @ '')''))"
| "Get JUndefined k = Inl (TypeError (''Cannot read properties of undefined (reading '' @ k @ '')''))"
| "Get v k = Inr (own_property v k)"

section \<open>Strings: decimal numbers, JSON text, base64url\<close>

definition digit :: "nat \<Rightarrow> char" where
  "digit d = ''0123456789'' ! d"

fun digits :: "nat \<Rightarrow> string" where
  "digits n = (if n < 10 then [digit n] else digits (n div 10) @ [digit (n mod 10)])"

definition decimal :: "int \<Rightarrow> string" where
  "decimal i = (if i < 0 then CHR ''-'' # digits (nat (- i)) else digits (nat i))"

definition hex_digit :: "nat \<Rightarrow> char" where
  "hex_digit d = ''0123456789abcdef'' ! d"

text \<open>
  \<open>JSON.stringify\<close> of a string: the quote and the backslash are escaped, control
  characters get their short escape or \<open>\u00XX\<close>, every other byte is copied.
\<close>

definition escape_char :: "char \<Rightarrow> string" where
  "escape_char c =
     (let n = (of_char c :: nat) in
      if c = CHR 0x22 then [CHR 0x5C, CHR 0x22]
      else if c = CHR 0x5C then [CHR 0x5C, CHR 0x5C]
      else if n = 8 then [CHR 0x5C, CHR ''b'']
      else if n = 12 then [CHR 0x5C, CHR ''f'']
      else if n = 10 then [CHR 0x5C, CHR ''n'']
      else if n = 13 then [CHR 0x5C, CHR ''r'']
      else if n = 9 then [CHR 0x5C, CHR ''t'']
      else if n < 32 then [CHR 0x5C, CHR ''u'', CHR ''0'', CHR ''0'', hex_digit (n div 16), hex_digit (n mod 16)]
      else [c])"

definition quote :: "string \<Rightarrow> string" where
  "quote s = [CHR 0x22] @ concat (map escape_char s) @ [CHR 0x22]"

fun join :: "string \<Rightarrow> string list \<Rightarrow> string" where
  "join sep [] = []"
| "join sep [x] = x"
| "join sep (x # y # ys) = x @ sep @ join sep (y # ys)"

text \<open>
  \<open>JSON.stringify\<close>: a property whose value is \<open>undefined\<close> is left out of an object, and
  an \<open>undefined\<close> element of an array is written \<open>null\<close>.
\<close>

fun JSON_stringify :: "jsval \<Rightarrow> string"
  and stringify_elements :: "jsval list \<Rightarrow> string list"
  and stringify_properties :: "(string \<times> jsval) list \<Rightarrow> string list" where
  "JSON_stringify JUndefined = ''null''"
| "JSON_stringify JNull = ''null''"
| "JSON_stringify (JBool b) = (if b then ''true'' else ''false'')"
| "JSON_stringify (JNum n) = decimal n"
| "JSON_stringify (JStr s) = quote s"
| "JSON_stringify (JArr vs) = ''['' @ join '','' (stringify_elements vs) @ '']''"
| "JSON_stringify (JObj kvs) = ''{'' @ join '','' (stringify_properties kvs) @ ''}''"
| "stringify_elements [] = []"
| "stringify_elements (v # vs) = JSON_stringify v # stringify_elements vs"
| "stringify_properties [] = []"
| "stringify_properties ((k, v) # kvs) =
     (if v = JUndefined then stringify_properties kvs
      else (quote k @ '':'' @ JSON_stringify v) # stringify_properties kvs)"

text \<open>
  \<open>String(v)\<close> and a template literal's conversion of a parsed JSON value. An array joins its
  elements, an object without an own \<open>toString\<close> property prints as \<open>[object Object]\<close>, and
  one with such a property (never callable in parsed JSON) cannot be converted.
\<close>

fun ToString :: "jsval \<Rightarrow> js_error + string"
  and ToString_elements :: "jsval list \<Rightarrow> js_error + string list" where
  "ToString JUndefined = Inr ''undefined''"
| "ToString JNull = Inr ''null''"
| "ToString (JBool b) = Inr (if b then ''true'' else ''false'')"
| "ToString (JNum n) = Inr (decimal n)"
| "ToString (JStr s) = Inr s"
| "ToString (JArr vs) =
     (case ToString_elements vs of Inl e \<Rightarrow> Inl e | Inr ss \<Rightarrow> Inr (join '','' ss))"
| "ToString (JObj kvs) =
     (if ''toString'' \<in> fst ` set kvs
      then Inl (TypeError ''Cannot convert object to primitive value'')
      else Inr ''[object Object]'')"
| "ToString_elements [] = Inr []"
| "ToString_elements (v # vs) =
     (case (if v = JUndefined \<or> v = JNull then Inr [] else ToString v) of
        Inl e \<Rightarrow> Inl e
      | Inr s \<Rightarrow> (case ToString_elements vs of Inl e \<Rightarrow> Inl e | Inr ss \<Rightarrow> Inr (s # ss)))"

subsection \<open>base64url, as \<open>getAccessToken\<close> builds it from \<open>btoa\<close>\<close>

definition alphanumerics :: string where
  "alphanumerics = ''ABCDEFGHIJKLMNOPQRSTUVWXYZabcdefghijklmnopqrstuvwxyz0123456789''"

definition b64_alphabet :: string where
  "b64_alphabet = alphanumerics @ ''+/''"

text \<open>The alphabet of base64url: \<open>-\<close> and \<open>_\<close> for \<open>+\<close> and \<open>/\<close>, and no \<open>=\<close>.\<close>

definition base64url_alphabet :: string where
  "base64url_alphabet = alphanumerics @ ''-_''"

definition b64 :: "nat \<Rightarrow> char" where
  "b64 n = b64_alphabet ! n"

text \<open>\<open>btoa\<close>: three bytes become four characters, the last group is padded with \<open>=\<close>.\<close>

fun btoa :: "string \<Rightarrow> string" where
  "btoa [] = []"
| "btoa [a] =
     (let x = (of_char a :: nat)
      in [b64 (x div 4), b64 ((x mod 4) * 16), CHR ''='', CHR ''=''])"
| "btoa [a, b] =
     (let x = (of_char a :: nat); y = (of_char b :: nat)
      in [b64 (x div 4), b64 ((x mod 4) * 16 + y div 16), b64 ((y mod 16) * 4), CHR ''=''])"
| "btoa (a # b # c # rest) =
     (let x = (of_char a :: nat); y = (of_char b :: nat); z = (of_char c :: nat)
      in [b64 (x div 4), b64 ((x mod 4) * 16 + y div 16),
          b64 ((y mod 16) * 4 + z div 64), b64 (z mod 64)] @ btoa rest)"

text \<open>\<open>s.replace(/c/g, d)\<close> for one character, and \<open>s.replace(/=+$/, '')\<close>.\<close>

definition replace_char :: "char \<Rightarrow> char \<Rightarrow> string \<Rightarrow> string" where
  "replace_char c d s = map (\<lambda>x. if x = c then d else x) s"

definition strip_trailing_equals :: "string \<Rightarrow> string" where
  "strip_trailing_equals s = rev (dropWhile (\<lambda>x. x = CHR ''='') (rev s))"

definition TextEncoder_encode :: "string \<Rightarrow> string" where
  "TextEncoder_encode s = s"

definition base64UrlEncode :: "string \<Rightarrow> string" where
  "base64UrlEncode buffer =
     strip_trailing_equals (replace_char CHR ''/'' CHR ''_'' (replace_char CHR ''+'' CHR ''-'' (btoa buffer)))"

subsection \<open>\<open>startsWith\<close>, \<open>replace\<close> with a string pattern, \<open>slice\<close>\<close>

definition startsWith :: "string \<Rightarrow> string \<Rightarrow> bool" where
  "startsWith s p = (take (length p) s = p)"

text \<open>
  \<open>s.replace(pat, rep)\<close> with a string pattern replaces the first occurrence only
  (\<open>rep\<close> holds no \<open>$\<close> pattern here: the code passes the empty string).
\<close>

fun replace_first :: "string \<Rightarrow> string \<Rightarrow> string \<Rightarrow> string" where
  "replace_first pat rep [] = (if pat = [] then rep else [])"
| "replace_first pat rep (c # cs) =
     (if startsWith (c # cs) pat then rep @ drop (length pat) (c # cs)
      else c # replace_first pat rep cs)"

definition slice :: "'a list \<Rightarrow> nat \<Rightarrow> nat \<Rightarrow> 'a list" where
  "slice xs i j = take (j - i) (drop i xs)"

section \<open>The data of \<open>firebaseMessaging.ts\<close>\<close>

text \<open>
  \<open>FirebaseServiceAccount\<close> is the object \<open>JSON.parse\<close> returned (the interface is not checked
  at run time), \<open>FCMNotification\<close> has a title and an optional body, the data payload
  (\<open>Record<string, string>\<close>) is the list of its properties in enumeration order, and
  \<open>FCMResponse\<close> is whatever JSON the send endpoint answered.
\<close>

type_synonym FirebaseServiceAccount = jsval

record FCMNotification =
  title :: string
  body :: "string option"

type_synonym FCMData = "(string \<times> string) list"

type_synonym FCMResponse = jsval

text \<open>\<open>PromiseSettledResult\<close>: \<open>{status: 'fulfilled', value}\<close> or \<open>{status: 'rejected', reason}\<close>.\<close>

datatype 'a PromiseSettledResult = Fulfilled 'a | Rejected js_error

subsection \<open>The platform: clock, signing, network\<close>

datatype request_body = URLSearchParams "(string \<times> string) list" | Text string

record request =
  req_url :: string
  req_method :: string
  req_headers :: "(string \<times> string) list"
  req_body :: request_body

text \<open>
  A \<open>Response\<close>: its \<open>ok\<close> flag, what \<open>text()\<close> resolves to and what \<open>json()\<close> resolves to.
  The token endpoint's JSON is read as the two fields the code uses, \<open>access_token\<close> (a
  string) and \<open>expires_in\<close> (a whole number of seconds).
\<close>

record 'a response =
  ok :: bool
  text_body :: "js_error + string"
  json_body :: "js_error + 'a"

record tokenData =
  access_token :: string
  expires_in :: int

text \<open>
  What the code asks of its environment, as functions the model is given:
  \<^item> \<open>Date_now k\<close>: the value of the \<open>k\<close>-th call of \<open>Date.now()\<close>, in milliseconds;
  \<^item> \<open>sign_RS256 key input\<close>: lines 108 to 133 of \<open>getAccessToken\<close>, from the PEM text of
    the private key (armour and whitespace stripped, \<open>atob\<close>, \<open>crypto.subtle.importKey\<close>) to
    the bytes \<open>crypto.subtle.sign\<close> returns, or the error one of these steps throws;
  \<^item> \<open>fetch_token\<close> and \<open>fetch_send\<close>: \<open>fetch\<close> on the token endpoint and on the send
    endpoint; the answer may depend on the requests made before, and \<open>fetch\<close> may reject;
  \<^item> \<open>resume_order i k\<close>: which of the suspended calls of a multicast batch is resumed next
    (see \<open>interleave\<close> below).
\<close>

record platform =
  Date_now :: "nat \<Rightarrow> int"
  sign_RS256 :: "string \<Rightarrow> string \<Rightarrow> js_error + string"
  fetch_token :: "request list \<Rightarrow> request \<Rightarrow> js_error + tokenData response"
  fetch_send :: "request list \<Rightarrow> request \<Rightarrow> js_error + FCMResponse response"
  resume_order :: "nat \<Rightarrow> nat \<Rightarrow> nat"

subsection \<open>The state of one service\<close>

text \<open>
  The variables \<open>createFCMService\<close> closes over (\<open>_serviceAccount\<close>, \<open>_accessToken\<close>,
  \<open>_tokenExpiry\<close>), with the number of clock readings made and the requests sent so far.
  \<open>console.error\<close> is not modelled.
\<close>

record fcm_service =
  priv_serviceAccount :: FirebaseServiceAccount
  priv_accessToken :: "string option"
  priv_tokenExpiry :: int
  clock_reads :: nat
  requests :: "request list"

section \<open>\<open>createFCMService\<close> and \<open>createServiceAccountFromJson\<close>\<close>

definition createFCMService :: "FirebaseServiceAccount \<Rightarrow> js_error + fcm_service" where
  "createFCMService serviceAccount =
     (if \<not> truthy serviceAccount
         \<or> \<not> truthy (own_property serviceAccount ''private_key'')
         \<or> \<not> truthy (own_property serviceAccount ''client_email'')
         \<or> \<not> truthy (own_property serviceAccount ''project_id'')
      then Inl (Error ''Invalid Firebase service account. Must include private_key, client_email and project_id'')
      else Inr \<lparr>priv_serviceAccount = serviceAccount, priv_accessToken = None,
                priv_tokenExpiry = 0, clock_reads = 0, requests = []\<rparr>)"

text \<open>The body of the \<open>try\<close> block of \<open>createServiceAccountFromJson\<close>, after \<open>JSON.parse\<close>.\<close>

definition validate_parsed :: "jsval \<Rightarrow> js_error + FirebaseServiceAccount" where
  "validate_parsed serviceAccount =
     (case Get serviceAccount ''private_key'' of
        Inl e \<Rightarrow> Inl e
      | Inr private_key \<Rightarrow>
          if \<not> truthy private_key
             \<or> \<not> truthy (own_property serviceAccount ''client_email'')
             \<or> \<not> truthy (own_property serviceAccount ''project_id'')
          then Inl (Error ''Invalid service account JSON. Must include private_key, client_email, and project_id'')
          else Inr serviceAccount)"

text \<open>
  \<open>JSON.parse\<close> is the engine's: the function takes it as \<open>JSON_parse\<close>. Whatever the \<open>try\<close>
  block throws is caught and thrown again as an \<open>Error\<close> whose message starts
  \<open>Invalid service account JSON: \<close>.
\<close>

definition createServiceAccountFromJson ::
    "(string \<Rightarrow> js_error + jsval) \<Rightarrow> string \<Rightarrow> js_error + FirebaseServiceAccount" where
  "createServiceAccountFromJson JSON_parse serviceAccountJson =
     (case (case JSON_parse serviceAccountJson of
              Inl e \<Rightarrow> Inl e
            | Inr serviceAccount \<Rightarrow> validate_parsed serviceAccount) of
        Inl error \<Rightarrow> Inl (Error (''Invalid service account JSON: '' @ message error))
      | Inr serviceAccount \<Rightarrow> Inr serviceAccount)"

section \<open>\<open>getAccessToken\<close>\<close>

definition jwtHeader :: jsval where
  "jwtHeader = JObj [(''alg'', JStr ''RS256''), (''typ'', JStr ''JWT'')]"

definition jwtClaimSet :: "FirebaseServiceAccount \<Rightarrow> int \<Rightarrow> jsval" where
  "jwtClaimSet serviceAccount now =
     JObj [(''iss'', own_property serviceAccount ''client_email''),
           (''scope'', JStr ''https://www.googleapis.com/auth/firebase.messaging''),
           (''aud'', JStr ''https://oauth2.googleapis.com/token''),
           (''exp'', JNum (now + 3600)),
           (''iat'', JNum now)]"

definition toSign :: "FirebaseServiceAccount \<Rightarrow> int \<Rightarrow> string" where
  "toSign serviceAccount now =
     base64UrlEncode (TextEncoder_encode (JSON_stringify jwtHeader)) @ ''.''
       @ base64UrlEncode (TextEncoder_encode (JSON_stringify (jwtClaimSet serviceAccount now)))"

definition token_request :: "string \<Rightarrow> request" where
  "token_request jwt =
     \<lparr>req_url = ''https://oauth2.googleapis.com/token'',
      req_method = ''POST'',
      req_headers = [(''Content-Type'', ''application/x-www-form-urlencoded'')],
      req_body = URLSearchParams
        [(''grant_type'', ''urn:ietf:params:oauth:grant-type:jwt-bearer''), (''assertion'', jwt)]\<rparr>"

text \<open>
  Lines 137 to 160: the exchange of a signed JWT for a token. The request is logged,
  a status that is not a success throws with the body's text, and only the last two
  assignments write the cache.
\<close>

definition exchange :: "platform \<Rightarrow> int \<Rightarrow> string \<Rightarrow> fcm_service \<Rightarrow> (js_error + string) \<times> fcm_service" where
  "exchange p now jwt st =
     (let req = token_request jwt;
          st1 = st\<lparr>requests := requests st @ [req]\<rparr>
      in case fetch_token p (requests st) req of
           Inl e \<Rightarrow> (Inl e, st1)
         | Inr tokenResponse \<Rightarrow>
             if \<not> ok tokenResponse then
               (case text_body tokenResponse of
                  Inl e \<Rightarrow> (Inl e, st1)
                | Inr errorText \<Rightarrow> (Inl (Error (''Failed to obtain access token: '' @ errorText)), st1))
             else
               (case json_body tokenResponse of
                  Inl e \<Rightarrow> (Inl e, st1)
                | Inr tokenData \<Rightarrow>
                    (Inr (access_token tokenData),
                     st1\<lparr>priv_accessToken := Some (access_token tokenData),
                         priv_tokenExpiry := now + expires_in tokenData\<rparr>)))"

text \<open>
  Lines 82 to 134, then the exchange: the JWT is signed with the private key, which must be
  a string for \<open>.replace\<close> to exist.
\<close>

definition requestToken :: "platform \<Rightarrow> int \<Rightarrow> fcm_service \<Rightarrow> (js_error + string) \<times> fcm_service" where
  "requestToken p now st =
     (case own_property (priv_serviceAccount st) ''private_key'' of
        JStr private_key \<Rightarrow>
          (case sign_RS256 p private_key (toSign (priv_serviceAccount st) now) of
             Inl e \<Rightarrow> (Inl e, st)
           | Inr signature \<Rightarrow>
               exchange p now
                 (toSign (priv_serviceAccount st) now @ ''.'' @ base64UrlEncode signature) st)
      | _ \<Rightarrow> (Inl (TypeError ''_serviceAccount.private_key.replace is not a function''), st))"

text \<open>
  \<open>_accessToken && _tokenExpiry > now + 300\<close>: the cache holds a string that is not empty
  (\<open>null\<close> and \<open>''\<close> are both falsy) and it expires more than 300 seconds from now.
\<close>

definition cached_token :: "fcm_service \<Rightarrow> int \<Rightarrow> string option" where
  "cached_token st now =
     (case priv_accessToken st of
        None \<Rightarrow> None
      | Some t \<Rightarrow> if t \<noteq> [] \<and> priv_tokenExpiry st > now + 300 then Some t else None)"

definition getAccessToken :: "platform \<Rightarrow> fcm_service \<Rightarrow> (js_error + string) \<times> fcm_service" where
  "getAccessToken p st =
     (let now = Date_now p (clock_reads st) div 1000;
          st0 = st\<lparr>clock_reads := Suc (clock_reads st)\<rparr>
      in case cached_token st now of
           Some t \<Rightarrow> (Inr t, st0)
         | None \<Rightarrow> requestToken p now st0)"

section \<open>\<open>sendNotification\<close> and \<open>sendTopicNotification\<close>\<close>

definition notification_json :: "FCMNotification \<Rightarrow> jsval" where
  "notification_json notification =
     JObj [(''title'', JStr (title notification)),
           (''body'', JStr (case body notification of None \<Rightarrow> [] | Some b \<Rightarrow> b))]"

definition data_json :: "FCMData \<Rightarrow> jsval" where
  "data_json data = JObj (map (\<lambda>(k, v). (k, JStr v)) data)"

text \<open>The object each send function hands to \<open>JSON.stringify\<close>: \<open>target\<close> is \<open>token\<close> or \<open>topic\<close>.\<close>

definition message_json :: "string \<Rightarrow> string \<Rightarrow> FCMNotification \<Rightarrow> FCMData \<Rightarrow> jsval" where
  "message_json target v notification data =
     JObj [(''message'',
            JObj [(target, JStr v),
                  (''notification'', notification_json notification),
                  (''data'', data_json data)])]"

definition send_request :: "string \<Rightarrow> string \<Rightarrow> jsval \<Rightarrow> request" where
  "send_request project_id accessToken msg =
     \<lparr>req_url = ''https://fcm.googleapis.com/v1/projects/'' @ project_id @ ''/messages:send'',
      req_method = ''POST'',
      req_headers = [(''Authorization'', ''Bearer '' @ accessToken),
                     (''Content-Type'', ''application/json'')],
      req_body = Text (JSON_stringify msg)\<rparr>"

text \<open>
  What the two send functions share from \<open>fetch\<close> on: the request goes out with the
  message as its body, a status that is not a success throws with the body's text, and
  the parsed answer is returned as it is.
\<close>

definition post_message :: "platform \<Rightarrow> string \<Rightarrow> jsval \<Rightarrow> fcm_service \<Rightarrow> (js_error + FCMResponse) \<times> fcm_service" where
  "post_message p accessToken msg st =
     (case ToString (own_property (priv_serviceAccount st) ''project_id'') of
        Inl e \<Rightarrow> (Inl e, st)
      | Inr project_id \<Rightarrow>
          (let req = send_request project_id accessToken msg;
               st1 = st\<lparr>requests := requests st @ [req]\<rparr>
           in case fetch_send p (requests st) req of
                Inl e \<Rightarrow> (Inl e, st1)
              | Inr response \<Rightarrow>
                  if \<not> ok response then
                    (case text_body response of
                       Inl e \<Rightarrow> (Inl e, st1)
                     | Inr errorText \<Rightarrow> (Inl (Error (''FCM API error: '' @ errorText)), st1))
                  else (json_body response, st1)))"

definition sendNotification ::
    "platform \<Rightarrow> string \<Rightarrow> FCMNotification \<Rightarrow> FCMData \<Rightarrow> fcm_service \<Rightarrow> (js_error + FCMResponse) \<times> fcm_service" where
  "sendNotification p token notification data st =
     (if token = [] then (Inl (Error ''Device token is required''), st)
      else if title notification = [] then (Inl (Error ''Notification title is required''), st)
      else case getAccessToken p st of
             (Inl e, st1) \<Rightarrow> (Inl e, st1)
           | (Inr accessToken, st1) \<Rightarrow>
               post_message p accessToken (message_json ''token'' token notification data) st1)"

definition formattedTopic :: "string \<Rightarrow> string" where
  "formattedTopic topic = (if startsWith topic ''/topics/'' then topic else ''/topics/'' @ topic)"

definition sendTopicNotification ::
    "platform \<Rightarrow> string \<Rightarrow> FCMNotification \<Rightarrow> FCMData \<Rightarrow> fcm_service \<Rightarrow> (js_error + FCMResponse) \<times> fcm_service" where
  "sendTopicNotification p topic notification data st =
     (if topic = [] then (Inl (Error ''Topic name is required''), st)
      else if title notification = [] then (Inl (Error ''Notification title is required''), st)
      else case getAccessToken p st of
             (Inl e, st1) \<Rightarrow> (Inl e, st1)
           | (Inr accessToken, st1) \<Rightarrow>
               post_message p accessToken
                 (message_json ''topic'' (replace_first ''/topics/'' [] (formattedTopic topic))
                    notification data) st1)"

section \<open>\<open>sendMulticastNotification\<close>\<close>

text \<open>\<open>Promise.allSettled\<close> turns each promise into a record and never rejects.\<close>

fun settle :: "js_error + 'a \<Rightarrow> 'a PromiseSettledResult" where
  "settle (Inl e) = Rejected e"
| "settle (Inr v) = Fulfilled v"

text \<open>
  \<open>batch.map(token => sendNotification(...))\<close> starts one call per token. Each runs up to
  its first \<open>await\<close> at once, in the order of the list, and is resumed later, one stretch
  between two \<open>await\<close>s at a time, in an order the event loop and the network decide. A
  \<open>call\<close> is the place where one \<open>sendNotification\<close> is suspended, with what it waits for:
  \<^item> \<open>Signing\<close>: in \<open>getAccessToken\<close>, for the key import and the signature;
  \<^item> \<open>TokenFetch\<close>: for the answer of the token endpoint (the request has been sent);
  \<^item> \<open>TokenBody\<close>: for \<open>text()\<close> or \<open>json()\<close> of that answer;
  \<^item> \<open>Resume\<close>: in \<open>sendNotification\<close>, for the promise of \<open>getAccessToken\<close>;
  \<^item> \<open>SendFetch\<close>: for the answer of the send endpoint (the request has been sent);
  \<^item> \<open>SendBody\<close>: for \<open>text()\<close> or \<open>json()\<close> of that answer;
  \<^item> \<open>Settled\<close>: the promise of the call is fulfilled or rejected.
\<close>

datatype call =
    Signing int string
  | TokenFetch int "js_error + tokenData response"
  | TokenBody int "tokenData response"
  | Resume "js_error + string"
  | SendFetch "js_error + FCMResponse response"
  | SendBody "FCMResponse response"
  | Settled "js_error + FCMResponse"

text \<open>
  The call of \<open>sendNotification\<close> itself: the two checks, then \<open>getAccessToken\<close> up to its
  return from the cache or to its first \<open>await\<close>.
\<close>

definition start :: "platform \<Rightarrow> string \<Rightarrow> FCMNotification \<Rightarrow> fcm_service \<Rightarrow> call \<times> fcm_service" where
  "start p token notification st =
     (if token = [] then (Settled (Inl (Error ''Device token is required'')), st)
      else if title notification = [] then (Settled (Inl (Error ''Notification title is required'')), st)
      else
        (let now = Date_now p (clock_reads st) div 1000;
             st0 = st\<lparr>clock_reads := Suc (clock_reads st)\<rparr>
         in case cached_token st now of
              Some t \<Rightarrow> (Resume (Inr t), st0)
            | None \<Rightarrow>
                (case own_property (priv_serviceAccount st) ''private_key'' of
                   JStr private_key \<Rightarrow> (Signing now private_key, st0)
                 | _ \<Rightarrow> (Resume (Inl (TypeError ''_serviceAccount.private_key.replace is not a function'')), st0))))"

text \<open>One stretch of a suspended call, from the \<open>await\<close> it stands at to the next.\<close>

fun step :: "platform \<Rightarrow> string \<Rightarrow> FCMNotification \<Rightarrow> FCMData \<Rightarrow> call \<Rightarrow> fcm_service \<Rightarrow> call \<times> fcm_service" where
  "step p token notification data (Signing now private_key) st =
     (case sign_RS256 p private_key (toSign (priv_serviceAccount st) now) of
        Inl e \<Rightarrow> (Resume (Inl e), st)
      | Inr signature \<Rightarrow>
          (let req = token_request (toSign (priv_serviceAccount st) now @ ''.'' @ base64UrlEncode signature)
           in (TokenFetch now (fetch_token p (requests st) req),
               st\<lparr>requests := requests st @ [req]\<rparr>)))"
| "step p token notification data (TokenFetch now r) st =
     (case r of Inl e \<Rightarrow> (Resume (Inl e), st) | Inr tokenResponse \<Rightarrow> (TokenBody now tokenResponse, st))"
| "step p token notification data (TokenBody now tokenResponse) st =
     (if \<not> ok tokenResponse then
        (case text_body tokenResponse of
           Inl e \<Rightarrow> (Resume (Inl e), st)
         | Inr errorText \<Rightarrow> (Resume (Inl (Error (''Failed to obtain access token: '' @ errorText))), st))
      else
        (case json_body tokenResponse of
           Inl e \<Rightarrow> (Resume (Inl e), st)
         | Inr tokenData \<Rightarrow>
             (Resume (Inr (access_token tokenData)),
              st\<lparr>priv_accessToken := Some (access_token tokenData),
                  priv_tokenExpiry := now + expires_in tokenData\<rparr>)))"
| "step p token notification data (Resume r) st =
     (case r of
        Inl e \<Rightarrow> (Settled (Inl e), st)
      | Inr accessToken \<Rightarrow>
          (case ToString (own_property (priv_serviceAccount st) ''project_id'') of
             Inl e \<Rightarrow> (Settled (Inl e), st)
           | Inr project_id \<Rightarrow>
               (let req = send_request project_id accessToken
                            (message_json ''token'' token notification data)
                in (SendFetch (fetch_send p (requests st) req),
                    st\<lparr>requests := requests st @ [req]\<rparr>))))"
| "step p token notification data (SendFetch r) st =
     (case r of Inl e \<Rightarrow> (Settled (Inl e), st) | Inr response \<Rightarrow> (SendBody response, st))"
| "step p token notification data (SendBody response) st =
     (if \<not> ok response then
        (case text_body response of
           Inl e \<Rightarrow> (Settled (Inl e), st)
         | Inr errorText \<Rightarrow> (Settled (Inl (Error (''FCM API error: '' @ errorText))), st))
      else (Settled (json_body response), st))"
| "step p token notification data (Settled r) st = (Settled r, st)"

text \<open>How many stretches a call has left at most, and the record of a settled call.\<close>

fun rank :: "call \<Rightarrow> nat" where
  "rank (Signing _ _) = 6"
| "rank (TokenFetch _ _) = 5"
| "rank (TokenBody _ _) = 4"
| "rank (Resume _) = 3"
| "rank (SendFetch _) = 2"
| "rank (SendBody _) = 1"
| "rank (Settled _) = 0"

fun outcome :: "call \<Rightarrow> FCMResponse PromiseSettledResult option" where
  "outcome (Settled r) = Some (settle r)"
| "outcome _ = None"

text \<open>A call resumed again and again until it has settled, with no other call in between.\<close>

function (sequential) complete ::
    "platform \<Rightarrow> string \<Rightarrow> FCMNotification \<Rightarrow> FCMData \<Rightarrow> call \<Rightarrow> fcm_service
       \<Rightarrow> (js_error + FCMResponse) \<times> fcm_service" where
  "complete p token notification data (Settled r) st = (r, st)"
| "complete p token notification data c st =
     (case step p token notification data c st of
        (c', st') \<Rightarrow> complete p token notification data c' st')"
  by pat_completeness auto
termination
  by (relation "measure (\<lambda>(p, token, notification, data, c, st). rank c)")
     (auto simp: Let_def split: sum.splits)

text \<open>
  The calls of a batch that have not settled, by position. \<open>interleave\<close> resumes one of
  them at a time until none is left; which one is \<open>pick k\<close>'s choice at the \<open>k\<close>-th
  stretch, so that every order of resumption is covered by some \<open>pick\<close>. It ends
  because the stretches the calls have left (\<open>ranks\<close>) get fewer with each one run.
\<close>

definition pending :: "(string \<times> call) list \<Rightarrow> nat list" where
  "pending calls = filter (\<lambda>i. outcome (snd (calls ! i)) = None) [0..<length calls]"

definition ranks :: "(string \<times> call) list \<Rightarrow> nat" where
  "ranks calls = sum_list (map (\<lambda>x. rank (snd x)) calls)"

function interleave ::
    "platform \<Rightarrow> FCMNotification \<Rightarrow> FCMData \<Rightarrow> (nat \<Rightarrow> nat) \<Rightarrow> nat \<Rightarrow> (string \<times> call) list
       \<Rightarrow> fcm_service \<Rightarrow> (string \<times> call) list \<times> fcm_service" where
  "interleave p notification data pick k calls st =
     (case pending calls of
        [] \<Rightarrow> (calls, st)
      | i # rest \<Rightarrow>
          (let j = (i # rest) ! (pick k mod length (i # rest));
               token = fst (calls ! j);
               stepped = step p token notification data (snd (calls ! j)) st
           in interleave p notification data pick (Suc k)
                (calls[j := (token, fst stepped)]) (snd stepped)))"
  by pat_completeness auto
termination
proof (relation "measure (\<lambda>(p, notification, data, pick, k, calls, st). ranks calls)", goal_cases)
  case 1
  show ?case by simp
next
  case (2 p notification data pick k calls st i rest j token stepped)
  have "j \<in> set (pending calls)"
    using 2(1,2) by (metis length_greater_0_conv list.distinct(1) mod_less_divisor nth_mem)
  then have j: "j < length calls" "outcome (snd (calls ! j)) = None"
    by (auto simp: pending_def)
  have smaller: "rank (fst stepped) < rank (snd (calls ! j))"
    using j(2) 2(4) by (cases "snd (calls ! j)") (auto simp: Let_def split: sum.splits)
  let ?rs = "map (\<lambda>x. rank (snd x)) calls"
  have "map (\<lambda>x. rank (snd x)) (calls[j := (token, fst stepped)]) = ?rs[j := rank (fst stepped)]"
    by (simp add: map_update)
  moreover have "sum_list (?rs[j := rank (fst stepped)]) = sum_list ?rs + rank (fst stepped) - ?rs ! j"
    using j(1) by (simp add: sum_list_update)
  moreover have "?rs ! j \<le> sum_list ?rs"
    using j(1) by (simp add: member_le_sum_list)
  ultimately have "ranks (calls[j := (token, fst stepped)]) < ranks calls"
    using smaller j(1) by (simp add: ranks_def)
  then show ?case by simp
qed

text \<open>\<open>batch.map(token => sendNotification(token, notification, data))\<close>.\<close>

fun start_all ::
    "platform \<Rightarrow> FCMNotification \<Rightarrow> string list \<Rightarrow> fcm_service \<Rightarrow> (string \<times> call) list \<times> fcm_service" where
  "start_all p notification [] st = ([], st)"
| "start_all p notification (token # tokens) st =
     (case start p token notification st of
        (c, st1) \<Rightarrow>
          (case start_all p notification tokens st1 of
             (cs, st2) \<Rightarrow> ((token, c) # cs, st2)))"

text \<open>
  \<open>await Promise.allSettled(promises)\<close>: the calls run to their end, interleaved, and
  the records are theirs, in the order of the calls (\<open>map_filter\<close> takes the record of each
  settled call; \<open>interleave\<close> leaves no call unsettled, see \<open>allSettled_length\<close>).
\<close>

definition allSettled ::
    "platform \<Rightarrow> FCMNotification \<Rightarrow> FCMData \<Rightarrow> (nat \<Rightarrow> nat) \<Rightarrow> (string \<times> call) list \<Rightarrow> fcm_service
       \<Rightarrow> FCMResponse PromiseSettledResult list \<times> fcm_service" where
  "allSettled p notification data pick promises st =
     (case interleave p notification data pick 0 promises st of
        (calls, st1) \<Rightarrow> (List.map_filter (\<lambda>x. outcome (snd x)) calls, st1))"

definition batchSize :: nat where
  "batchSize = 500"

text \<open>
  The \<open>for\<close> loop, from index \<open>i\<close> with the \<open>results\<close> pushed so far. The platform's
  \<open>resume_order\<close> gives, for the batch that starts at \<open>i\<close>, the order in which its calls
  are resumed.
\<close>

function multicast_loop ::
    "platform \<Rightarrow> string list \<Rightarrow> FCMNotification \<Rightarrow> FCMData \<Rightarrow> nat
       \<Rightarrow> FCMResponse PromiseSettledResult list \<Rightarrow> fcm_service
       \<Rightarrow> FCMResponse PromiseSettledResult list \<times> fcm_service" where
  "multicast_loop p tokens notification data i results st =
     (if i < length tokens then
        (let batch = slice tokens i (i + batchSize)
         in case start_all p notification batch st of
              (promises, st1) \<Rightarrow>
                (case allSettled p notification data (resume_order p i) promises st1 of
                   (batchResults, st2) \<Rightarrow>
                     multicast_loop p tokens notification data (i + batchSize)
                       (results @ batchResults) st2))
      else (results, st))"
  by pat_completeness auto
termination
  by (relation "measure (\<lambda>(p, tokens, notification, data, i, results, st). length tokens - i)")
     (auto simp: batchSize_def)

definition sendMulticastNotification ::
    "platform \<Rightarrow> string list \<Rightarrow> FCMNotification \<Rightarrow> FCMData \<Rightarrow> fcm_service
       \<Rightarrow> (js_error + FCMResponse PromiseSettledResult list) \<times> fcm_service" where
  "sendMulticastNotification p tokens notification data st =
     (if tokens = [] then (Inl (Error ''At least one device token is required''), st)
      else case multicast_loop p tokens notification data 0 [] st of
             (results, st1) \<Rightarrow> (Inr results, st1))"

text \<open>The batches the loop takes, one per iteration: \<open>tokens.slice(i, i + batchSize)\<close>.\<close>

function batches :: "nat \<Rightarrow> 'a list \<Rightarrow> 'a list list" where
  "batches i tokens =
     (if i < length tokens then slice tokens i (i + batchSize) # batches (i + batchSize) tokens
      else [])"
  by pat_completeness auto
termination
  by (relation "measure (\<lambda>(i, tokens). length tokens - i)") (auto simp: batchSize_def)

text \<open>One batch after the other, each from the state the one before left.\<close>

fun run_batches ::
    "platform \<Rightarrow> FCMNotification \<Rightarrow> FCMData \<Rightarrow> nat \<Rightarrow> string list list \<Rightarrow> fcm_service
       \<Rightarrow> FCMResponse PromiseSettledResult list \<times> fcm_service" where
  "run_batches p notification data i [] st = ([], st)"
| "run_batches p notification data i (batch # rest) st =
     (case start_all p notification batch st of
        (promises, st1) \<Rightarrow>
          (case allSettled p notification data (resume_order p i) promises st1 of
             (batchResults, st2) \<Rightarrow>
               (case run_batches p notification data (i + batchSize) rest st2 of
                  (results, st3) \<Rightarrow> (batchResults @ results, st3))))"

section \<open>Concrete inputs\<close>

text \<open>
  A credential, a fresh service for it, a platform whose two endpoints answer with a
  success (the token \<open>abc\<close> valid for an hour, the message name
  \<open>projects/p/messages/1\<close>), and one whose endpoints refuse with the body \<open>denied\<close>.
\<close>

definition demo_account :: FirebaseServiceAccount where
  "demo_account =
     JObj [(''project_id'', JStr ''p''), (''private_key'', JStr ''key''),
           (''client_email'', JStr ''a@b.c'')]"

definition demo_service :: fcm_service where
  "demo_service =
     \<lparr>priv_serviceAccount = demo_account, priv_accessToken = None, priv_tokenExpiry = 0,
      clock_reads = 0, requests = []\<rparr>"

definition demo_platform :: platform where
  "demo_platform =
     \<lparr>Date_now = (\<lambda>k. 1700000000000),
      sign_RS256 = (\<lambda>key input. Inr ''sig''),
      fetch_token = (\<lambda>log req. Inr \<lparr>ok = True, text_body = Inr [],
                       json_body = Inr \<lparr>access_token = ''abc'', expires_in = 3600\<rparr>\<rparr>),
      fetch_send = (\<lambda>log req. Inr \<lparr>ok = True, text_body = Inr [],
                      json_body = Inr (JObj [(''name'', JStr ''projects/p/messages/1'')])\<rparr>),
      resume_order = (\<lambda>i k. k)\<rparr>"

definition refusing_platform :: platform where
  "refusing_platform =
     \<lparr>Date_now = (\<lambda>k. 1700000000000),
      sign_RS256 = (\<lambda>key input. Inr ''sig''),
      fetch_token = (\<lambda>log req. Inr \<lparr>ok = False, text_body = Inr ''denied'',
                       json_body = Inl (SyntaxError ''Unexpected token d'')\<rparr>),
      fetch_send = (\<lambda>log req. Inr \<lparr>ok = False, text_body = Inr ''denied'',
                      json_body = Inl (SyntaxError ''Unexpected token d'')\<rparr>),
      resume_order = (\<lambda>i k. 0)\<rparr>"

definition untitled :: FCMNotification where
  "untitled = \<lparr>title = [], body = None\<rparr>"

definition greeting :: FCMNotification where
  "greeting = \<lparr>title = ''Hi'', body = Some ''there''\<rparr>"

text \<open>
  The same service with a token cached until 1700000400 and with one that is about to
  expire; a platform whose clock shows 100 seconds later; one whose token endpoint answers
  and whose send endpoint refuses.
\<close>

definition warm_service :: fcm_service where
  "warm_service = demo_service\<lparr>priv_accessToken := Some ''abc'', priv_tokenExpiry := 1700000400\<rparr>"

definition stale_service :: fcm_service where
  "stale_service = demo_service\<lparr>priv_accessToken := Some ''old'', priv_tokenExpiry := 1700000200\<rparr>"

definition later_platform :: platform where
  "later_platform = demo_platform\<lparr>Date_now := (\<lambda>k. 1700000100000)\<rparr>"

definition half_platform :: platform where
  "half_platform = demo_platform\<lparr>fetch_send := fetch_send refusing_platform\<rparr>"

text \<open>
  The three fields both constructors require. A field is missing or empty, in the words of
  the specification, when the object has no such property or the property is the empty
  string; the code tests \<open>!field\<close>, which also holds for \<open>null\<close>, \<open>false\<close> and \<open>0\<close>.
\<close>

definition required_fields :: "string list" where
  "required_fields = [''private_key'', ''client_email'', ''project_id'']"

definition field_missing_or_empty :: "jsval \<Rightarrow> string \<Rightarrow> bool" where
  "field_missing_or_empty v k = (own_property v k = JUndefined \<or> own_property v k = JStr [])"

definition field_missing_or_falsy :: "jsval \<Rightarrow> string \<Rightarrow> bool" where
  "field_missing_or_falsy v k =
     (own_property v k = JUndefined \<or> own_property v k = JStr [] \<or> own_property v k = JNull
      \<or> own_property v k = JBool False \<or> own_property v k = JNum 0)"

text \<open>
  A credential whose private key is \<open>false\<close>, and a stand-in for \<open>JSON.parse\<close> that knows
  the text of the two credentials and of \<open>null\<close>.
\<close>

definition odd_account :: FirebaseServiceAccount where
  "odd_account =
     JObj [(''project_id'', JStr ''p''), (''private_key'', JBool False),
           (''client_email'', JStr ''a@b.c'')]"

definition demo_parse :: "string \<Rightarrow> js_error + jsval" where
  "demo_parse s =
     (if s = JSON_stringify demo_account then Inr demo_account
      else if s = JSON_stringify odd_account then Inr odd_account
      else if s = ''null'' then Inr JNull
      else Inl (SyntaxError ''Unexpected token''))"

text \<open>What the two \<open>replace\<close> calls of \<open>base64UrlEncode\<close> do to one character.\<close>

definition url_char :: "char \<Rightarrow> char" where
  "url_char c = (if (if c = CHR ''+'' then CHR ''-'' else c) = CHR ''/'' then CHR ''_''
                 else (if c = CHR ''+'' then CHR ''-'' else c))"

declare digits.simps [simp del]
declare multicast_loop.simps [simp del]
declare batches.simps [simp del]
declare interleave.simps [simp del]

section \<open>Calls, batches and the multicast loop\<close>

lemma rank_step: "outcome c = None \<Longrightarrow> rank (fst (step p token notification data c st)) < rank c"
  by (cases c) (auto simp: Let_def split: sum.splits)

text \<open>
  The suspended form and the direct form of \<open>sendNotification\<close> agree: a call started
  and resumed to its end, alone, is \<open>sendNotification\<close>.
\<close>

lemma complete_start:
  "(case start p token notification st of
      (c, st1) \<Rightarrow> complete p token notification data c st1) =
   sendNotification p token notification data st"
  by (auto simp: start_def sendNotification_def getAccessToken_def requestToken_def exchange_def
        post_message_def Let_def
      split: option.splits jsval.splits sum.splits prod.splits)

lemma pending_mem: "j \<in> set (pending calls) \<longleftrightarrow> j < length calls \<and> outcome (snd (calls ! j)) = None"
  by (auto simp: pending_def)


lemma interleave_done: "pending calls = [] \<Longrightarrow> interleave p notification data pick k calls st = (calls, st)"
  by (subst interleave.simps) simp

lemma interleave_step:
  assumes "pending calls = i # rest"
  shows "interleave p notification data pick k calls st =
           interleave p notification data pick (Suc k)
             (calls[(i # rest) ! (pick k mod length (i # rest)) :=
                (fst (calls ! ((i # rest) ! (pick k mod length (i # rest)))),
                 fst (step p (fst (calls ! ((i # rest) ! (pick k mod length (i # rest)))))
                        notification data
                        (snd (calls ! ((i # rest) ! (pick k mod length (i # rest))))) st))])
             (snd (step p (fst (calls ! ((i # rest) ! (pick k mod length (i # rest)))))
                        notification data
                        (snd (calls ! ((i # rest) ! (pick k mod length (i # rest))))) st))"
  using assms by (subst interleave.simps) (simp add: Let_def)



lemma pending_Nil_iff: "pending calls = [] \<longleftrightarrow> (\<forall>x \<in> set calls. outcome (snd x) \<noteq> None)"
proof
  assume a: "pending calls = []"
  show "\<forall>x \<in> set calls. outcome (snd x) \<noteq> None"
  proof
    fix x assume "x \<in> set calls"
    then obtain j where "j < length calls" "calls ! j = x" by (auto simp: in_set_conv_nth)
    then show "outcome (snd x) \<noteq> None"
      using a pending_mem [of j calls] by auto
  qed
next
  assume "\<forall>x \<in> set calls. outcome (snd x) \<noteq> None"
  then have "\<And>j. j \<notin> set (pending calls)" by (auto simp: pending_mem)
  then show "pending calls = []" by (cases "pending calls") auto
qed



lemma start_all_untitled:
  "title notification = [] \<Longrightarrow>
     start_all p notification tokens st =
       (map (\<lambda>token. (token, Settled (Inl (Error (if token = [] then ''Device token is required''
                                        else ''Notification title is required''))))) tokens, st)"
  by (induction tokens) (simp_all add: start_def)



lemma allSettled_all_settled:
  assumes "\<forall>x \<in> set promises. outcome (snd x) \<noteq> None"
  shows "allSettled p notification data pick promises st =
           (List.map_filter (\<lambda>x. outcome (snd x)) promises, st)"
  using assms by (simp add: allSettled_def interleave_done pending_Nil_iff)

lemma slice_drop: "slice xs i (i + n) @ drop (i + n) xs = drop i xs"
proof -
  have "take n (drop i xs) @ drop n (drop i xs) = drop i xs"
    by (rule append_take_drop_id)
  then show ?thesis by (simp add: slice_def add.commute)
qed

text \<open>The loop runs the batches of \<open>batches\<close>, one after the other.\<close>

lemma multicast_loop_run_batches:
  "multicast_loop p tokens notification data i results st =
     (case run_batches p notification data i (batches i tokens) st of
        (rs, st1) \<Rightarrow> (results @ rs, st1))"
proof (induction p tokens notification data i results st rule: multicast_loop.induct)
  case (1 p tokens notification data i results st)
  show ?case
  proof (cases "i < length tokens")
    case False
    then show ?thesis by (simp add: multicast_loop.simps batches.simps)
  next
    case True
    let ?batch = "slice tokens i (i + batchSize)"
    obtain promises st1 where s: "start_all p notification ?batch st = (promises, st1)"
      by (cases "start_all p notification ?batch st")
    obtain rs st2 where a: "allSettled p notification data (resume_order p i) promises st1 = (rs, st2)"
      by (cases "allSettled p notification data (resume_order p i) promises st1")
    have b: "batches i tokens = ?batch # batches (i + batchSize) tokens"
      using True by (subst batches.simps) simp
    have "multicast_loop p tokens notification data i results st =
            multicast_loop p tokens notification data (i + batchSize) (results @ rs) st2"
      using True s a by (subst multicast_loop.simps) simp
    also have "\<dots> = (case run_batches p notification data (i + batchSize)
                              (batches (i + batchSize) tokens) st2 of
                        (rs', st3) \<Rightarrow> ((results @ rs) @ rs', st3))"
      using "1.IH" [OF True refl s [symmetric] a [symmetric]] by simp
    also have "\<dots> = (case run_batches p notification data i (batches i tokens) st of
                        (rs', st3) \<Rightarrow> (results @ rs', st3))"
      unfolding b by (simp add: s a split: prod.splits)
    finally show ?thesis .
  qed
qed

lemma concat_batches: "concat (batches i tokens) = drop i tokens"
proof (induction i tokens rule: batches.induct)
  case (1 i tokens)
  show ?case
  proof (cases "i < length tokens")
    case False
    then show ?thesis by (simp add: batches.simps)
  next
    case True
    then show ?thesis
      using "1.IH" by (subst batches.simps) (simp add: slice_drop)
  qed
qed





lemma run_batches_untitled:
  "title notification = [] \<Longrightarrow>
     run_batches p notification data i bs st =
       (map (\<lambda>token. Rejected (Error (if token = [] then ''Device token is required''
                                        else ''Notification title is required''))) (concat bs), st)"
proof (induction bs arbitrary: i)
  case Nil
  show ?case by simp
next
  case (Cons batch rest)
  let ?f = "\<lambda>token. (token, Settled (Inl (Error (if token = [] then ''Device token is required''
                                        else ''Notification title is required''))))"
  have "allSettled p notification data (resume_order p i) (map ?f batch) st =
          (List.map_filter (\<lambda>x. outcome (snd x)) (map ?f batch), st)"
    by (intro allSettled_all_settled) simp
  moreover have "List.map_filter (\<lambda>x. outcome (snd x)) (map ?f batch) =
      map (\<lambda>token. Rejected (Error (if token = [] then ''Device token is required''
                                        else ''Notification title is required''))) batch"
    by (induction batch) (simp_all add: List.map_filter_simps)
  ultimately show ?case
    using Cons by (simp add: start_all_untitled)
qed

lemma sendMulticastNotification_run_batches:
  "tokens \<noteq> [] \<Longrightarrow>
     sendMulticastNotification p tokens notification data st =
       (case run_batches p notification data 0 (batches 0 tokens) st of
          (results, st1) \<Rightarrow> (Inr results, st1))"
  by (simp add: sendMulticastNotification_def multicast_loop_run_batches split: prod.splits)

text \<open>A call alone in its batch runs as \<open>sendNotification\<close> does.\<close>

lemma interleave_single:
  "interleave p notification data pick k [(token, c)] st =
     (case complete p token notification data c st of
        (r, st') \<Rightarrow> ([(token, Settled r)], st'))"
proof (induction "rank c" arbitrary: c st k rule: less_induct)
  case less
  show ?case
  proof (cases "outcome c")
    case (Some settled)
    then obtain r where "c = Settled r" by (cases c) auto
    then show ?thesis by (simp add: interleave_done pending_def)
  next
    case None
    have pd: "pending [(token, c)] = [0]"
      using None by (simp add: pending_def)
    obtain c' st' where s: "step p token notification data c st = (c', st')"
      by (cases "step p token notification data c st")
    have smaller: "rank c' < rank c"
      using rank_step [OF None, of p token notification data st] s by simp
    have unfold: "complete p token notification data c st =
                    complete p token notification data c' st'"
      using None s by (cases c) simp_all
    show ?thesis
      using less [OF smaller]
      by (subst interleave_step [OF pd]) (simp add: s unfold)
  qed
qed

lemma sendMulticastNotification_single:
  "sendMulticastNotification p [token] notification data st =
     (Inr [settle (fst (sendNotification p token notification data st))],
      snd (sendNotification p token notification data st))"
proof -
  obtain c st1 where s: "start p token notification st = (c, st1)"
    by (cases "start p token notification st")
  obtain r st2 where c: "complete p token notification data c st1 = (r, st2)"
    by (cases "complete p token notification data c st1")
  have sn: "sendNotification p token notification data st = (r, st2)"
    using complete_start [of p token notification data st] s c by simp
  have b: "batches 0 [token] = [[token]]"
    by (subst batches.simps, simp add: batchSize_def slice_def)+
  have "allSettled p notification data (resume_order p 0) [(token, c)] st1 = ([settle r], st2)"
    by (simp add: allSettled_def interleave_single c List.map_filter_simps)
  then have "run_batches p notification data 0 [[token]] st = ([settle r], st2)"
    using s by simp
  then show ?thesis
    by (simp add: sendMulticastNotification_run_batches b sn)
qed

section \<open>Claims about \<open>sendNotification\<close> and \<open>sendMulticastNotification\<close>\<close>

text \<open>
  Claim C6. \<open>sendNotification\<close> with an empty device token throws
  \<open>Error('Device token is required')\<close>, and with a token but an empty title it throws
  \<open>Error('Notification title is required')\<close>; these are the spec's \<open>InvalidArgument\<close>. In
  both cases the state comes back as it was: the clock has not been read, so no token
  was acquired, and no request was sent.
\<close>

theorem sendNotification_invalid_argument:
  "sendNotification p [] notification data st = (Inl (Error ''Device token is required''), st)
   \<and> (token \<noteq> [] \<longrightarrow> title notification = [] \<longrightarrow>
        sendNotification p token notification data st =
          (Inl (Error ''Notification title is required''), st))"
  by (simp add: sendNotification_def)

theorem sendNotification_invalid_argument_witness:
  "''tok'' \<noteq> [] \<and> title untitled = []
   \<and> sendNotification demo_platform ''tok'' untitled [] demo_service =
        (Inl (Error ''Notification title is required''), demo_service)
   \<and> sendNotification demo_platform [] greeting [] demo_service =
        (Inl (Error ''Device token is required''), demo_service)"
  using sendNotification_invalid_argument [of demo_platform greeting "[]" demo_service "''tok''"]
    sendNotification_invalid_argument [of demo_platform untitled "[]" demo_service "''tok''"]
  by (simp add: untitled_def)



text \<open>
  Claim C8, as stated, fails: with one token and an empty title the call does not throw.
  It returns one rejected record.
\<close>

theorem sendMulticastNotification_untitled_counterexample:
  "sendMulticastNotification demo_platform [''tok''] untitled [] demo_service =
     (Inr [Rejected (Error ''Notification title is required'')], demo_service)"
  by (simp add: sendMulticastNotification_single sendNotification_def untitled_def)

text \<open>
  Claim C8, amended. With at least one token and an empty title,
  \<open>sendMulticastNotification\<close> does not throw: it returns one \<open>Rejected\<close> record per token,
  holding the \<open>InvalidArgument\<close> error that \<open>sendNotification\<close> threw for it (the token is
  checked before the title), and it reads no clock and sends no request.
\<close>

theorem sendMulticastNotification_untitled:
  "tokens \<noteq> [] \<Longrightarrow> title notification = [] \<Longrightarrow>
     sendMulticastNotification p tokens notification data st =
       (Inr (map (\<lambda>token. Rejected (Error (if token = [] then ''Device token is required''
                                             else ''Notification title is required''))) tokens), st)"
  by (simp add: sendMulticastNotification_run_batches run_batches_untitled concat_batches)

theorem sendMulticastNotification_untitled_witness:
  "[''a'', [], ''b''] \<noteq> [] \<and> title untitled = []
   \<and> sendMulticastNotification refusing_platform [''a'', [], ''b''] untitled [] demo_service =
       (Inr [Rejected (Error ''Notification title is required''),
             Rejected (Error ''Device token is required''),
             Rejected (Error ''Notification title is required'')], demo_service)"
  using sendMulticastNotification_untitled
          [where tokens = "[''a'', [], ''b'']" and notification = untitled
             and p = refusing_platform and data = "[]" and st = demo_service]
  by (simp add: untitled_def)

section \<open>Claims about \<open>sendTopicNotification\<close>\<close>







section \<open>Claims about \<open>getAccessToken\<close>\<close>



lemma exchange_request:
  "requests (snd (exchange p now jwt st)) = requests st @ [token_request jwt]"
  by (simp add: exchange_def Let_def split: sum.splits)

lemma exchange_success:
  "exchange p now jwt st = (Inr t, st') \<Longrightarrow>
     \<exists>resp td. fetch_token p (requests st) (token_request jwt) = Inr resp \<and> ok resp
        \<and> json_body resp = Inr td \<and> t = access_token td
        \<and> priv_accessToken st' = Some t \<and> priv_tokenExpiry st' = now + expires_in td
        \<and> requests st' = requests st @ [token_request jwt]"
  by (auto simp: exchange_def Let_def split: sum.splits if_splits)

lemma requestToken_success:
  "requestToken p now st = (Inr t, st') \<Longrightarrow>
     \<exists>jwt resp td. fetch_token p (requests st) (token_request jwt) = Inr resp \<and> ok resp
        \<and> json_body resp = Inr td \<and> t = access_token td
        \<and> priv_accessToken st' = Some t \<and> priv_tokenExpiry st' = now + expires_in td
        \<and> requests st' = requests st @ [token_request jwt]"
  by (auto simp: requestToken_def split: jsval.splits sum.splits dest!: exchange_success)

lemma exchange_ok:
  "fetch_token p (requests st) (token_request jwt) = Inr resp \<Longrightarrow> ok resp \<Longrightarrow>
   json_body resp = Inr td \<Longrightarrow>
     exchange p now jwt st =
       (Inr (access_token td),
        st\<lparr>requests := requests st @ [token_request jwt],
            priv_accessToken := Some (access_token td),
            priv_tokenExpiry := now + expires_in td\<rparr>)"
  by (simp add: exchange_def Let_def)

lemma getAccessToken_hit:
  "cached_token st (Date_now p (clock_reads st) div 1000) = Some t \<Longrightarrow>
     getAccessToken p st = (Inr t, st\<lparr>clock_reads := Suc (clock_reads st)\<rparr>)"
  by (simp add: getAccessToken_def Let_def)

lemma getAccessToken_miss:
  "cached_token st (Date_now p (clock_reads st) div 1000) = None \<Longrightarrow>
     getAccessToken p st =
       requestToken p (Date_now p (clock_reads st) div 1000) (st\<lparr>clock_reads := Suc (clock_reads st)\<rparr>)"
  by (simp add: getAccessToken_def Let_def)

lemma cached_token_Some_iff:
  "cached_token st now = Some t \<longleftrightarrow>
     priv_accessToken st = Some t \<and> t \<noteq> [] \<and> now + 300 < priv_tokenExpiry st"
  by (auto simp: cached_token_def split: option.splits)

lemma requestToken_signed:
  "own_property (priv_serviceAccount st) ''private_key'' = JStr key \<Longrightarrow>
   sign_RS256 p key (toSign (priv_serviceAccount st) now) = Inr signature \<Longrightarrow>
     requestToken p now st =
       exchange p now (toSign (priv_serviceAccount st) now @ ''.'' @ base64UrlEncode signature) st"
  by (simp add: requestToken_def)

lemma exchange_refused:
  "fetch_token p (requests st) (token_request jwt) = Inr resp \<Longrightarrow> \<not> ok resp \<Longrightarrow>
   text_body resp = Inr errorText \<Longrightarrow>
     exchange p now jwt st =
       (Inl (Error (''Failed to obtain access token: '' @ errorText)),
        st\<lparr>requests := requests st @ [token_request jwt]\<rparr>)"
  by (simp add: exchange_def Let_def)

lemma post_message_refused:
  "ToString (own_property (priv_serviceAccount st) ''project_id'') = Inr project_id \<Longrightarrow>
   fetch_send p (requests st) (send_request project_id accessToken msg) = Inr resp \<Longrightarrow>
   \<not> ok resp \<Longrightarrow> text_body resp = Inr errorText \<Longrightarrow>
     post_message p accessToken msg st =
       (Inl (Error (''FCM API error: '' @ errorText)),
        st\<lparr>requests := requests st @ [send_request project_id accessToken msg]\<rparr>)"
  by (simp add: post_message_def Let_def)




text \<open>
  Claim C1. Let \<open>now\<close> be the clock reading of the call, in whole seconds.
  \<^item> If the cache holds a token (a string that is not empty, which is what
    \<open>_accessToken &&\<close> tests) and \<open>now + 300 < _tokenExpiry\<close>, the call returns that string;
    the cache and the request log are unchanged, only the clock has been read.
  \<^item> Otherwise the call signs a JWT and, the signature obtained, sends exactly one request,
    to the token endpoint; when the endpoint answers with a success and the token data
    \<open>td\<close>, the call returns \<open>access_token td\<close> and the cache holds that token with
    \<open>_tokenExpiry = now + expires_in td\<close>. A token returned in this case always comes from
    such an exchange.
  \<^item> With a cached token expiring at \<open>t0 + 400\<close>, a call at \<open>now < t0 + 100\<close> returns the
    cached string without a request, and a call at \<open>now \<ge> t0 + 100\<close> sends the token request.
\<close>

theorem getAccessToken_cache:
  assumes now: "now = Date_now p (clock_reads st) div 1000"
  shows
    "(priv_accessToken st = Some t \<and> t \<noteq> [] \<and> now + 300 < priv_tokenExpiry st \<longrightarrow>
        getAccessToken p st = (Inr t, st\<lparr>clock_reads := Suc (clock_reads st)\<rparr>))
     \<and> (\<not> (\<exists>c. priv_accessToken st = Some c \<and> c \<noteq> [] \<and> now + 300 < priv_tokenExpiry st) \<longrightarrow>
          (\<forall>key signature.
              own_property (priv_serviceAccount st) ''private_key'' = JStr key \<longrightarrow>
              sign_RS256 p key (toSign (priv_serviceAccount st) now) = Inr signature \<longrightarrow>
              requests (snd (getAccessToken p st)) =
                requests st @ [token_request (toSign (priv_serviceAccount st) now @ ''.''
                                               @ base64UrlEncode signature)]
              \<and> (\<forall>resp td.
                    fetch_token p (requests st)
                      (token_request (toSign (priv_serviceAccount st) now @ ''.''
                                        @ base64UrlEncode signature)) = Inr resp \<longrightarrow>
                    ok resp \<longrightarrow> json_body resp = Inr td \<longrightarrow>
                    getAccessToken p st =
                      (Inr (access_token td),
                       st\<lparr>clock_reads := Suc (clock_reads st),
                           requests := requests st @ [token_request
                             (toSign (priv_serviceAccount st) now @ ''.'' @ base64UrlEncode signature)],
                           priv_accessToken := Some (access_token td),
                           priv_tokenExpiry := now + expires_in td\<rparr>)))
          \<and> (\<forall>r st'. getAccessToken p st = (Inr r, st') \<longrightarrow>
                (\<exists>jwt resp td.
                    requests st' = requests st @ [token_request jwt]
                    \<and> fetch_token p (requests st) (token_request jwt) = Inr resp
                    \<and> ok resp \<and> json_body resp = Inr td
                    \<and> r = access_token td
                    \<and> priv_accessToken st' = Some (access_token td)
                    \<and> priv_tokenExpiry st' = now + expires_in td)))
     \<and> (priv_accessToken st = Some t \<and> t \<noteq> [] \<and> priv_tokenExpiry st = t0 + 400 \<longrightarrow>
          (now < t0 + 100 \<longrightarrow>
             getAccessToken p st = (Inr t, st\<lparr>clock_reads := Suc (clock_reads st)\<rparr>))
          \<and> (t0 + 100 \<le> now \<longrightarrow>
               (\<forall>key signature.
                  own_property (priv_serviceAccount st) ''private_key'' = JStr key \<longrightarrow>
                  sign_RS256 p key (toSign (priv_serviceAccount st) now) = Inr signature \<longrightarrow>
                  requests (snd (getAccessToken p st)) =
                    requests st @ [token_request (toSign (priv_serviceAccount st) now @ ''.''
                                                   @ base64UrlEncode signature)])))"
proof -
  let ?st0 = "st\<lparr>clock_reads := Suc (clock_reads st)\<rparr>"
  let ?miss = "\<not> (\<exists>c. priv_accessToken st = Some c \<and> c \<noteq> [] \<and> now + 300 < priv_tokenExpiry st)"
  have hit: "getAccessToken p st = (Inr t, ?st0)"
    if "priv_accessToken st = Some t" "t \<noteq> []" "now + 300 < priv_tokenExpiry st" for t
    using that now by (intro getAccessToken_hit) (simp add: cached_token_Some_iff)
  have miss: "getAccessToken p st = requestToken p now ?st0" if ?miss
  proof -
    have "cached_token st now = None"
      using that by (cases "cached_token st now") (auto simp: cached_token_Some_iff)
    then show ?thesis using getAccessToken_miss [of st p] now by simp
  qed
  have sent: "requests (snd (getAccessToken p st)) =
                requests st @ [token_request (toSign (priv_serviceAccount st) now @ ''.''
                                               @ base64UrlEncode signature)]"
    if ?miss
      "own_property (priv_serviceAccount st) ''private_key'' = JStr key"
      "sign_RS256 p key (toSign (priv_serviceAccount st) now) = Inr signature" for key signature
    using that by (simp add: miss requestToken_signed exchange_request)
  have stored: "getAccessToken p st =
                      (Inr (access_token td),
                       st\<lparr>clock_reads := Suc (clock_reads st),
                           requests := requests st @ [token_request
                             (toSign (priv_serviceAccount st) now @ ''.'' @ base64UrlEncode signature)],
                           priv_accessToken := Some (access_token td),
                           priv_tokenExpiry := now + expires_in td\<rparr>)"
    if ?miss
      "own_property (priv_serviceAccount st) ''private_key'' = JStr key"
      "sign_RS256 p key (toSign (priv_serviceAccount st) now) = Inr signature"
      "fetch_token p (requests st)
          (token_request (toSign (priv_serviceAccount st) now @ ''.''
                            @ base64UrlEncode signature)) = Inr resp"
      "ok resp" "json_body resp = Inr td" for key signature resp td
    using that by (simp add: miss requestToken_signed exchange_ok)
  have fresh: "\<exists>jwt resp td.
                    requests st' = requests st @ [token_request jwt]
                    \<and> fetch_token p (requests st) (token_request jwt) = Inr resp
                    \<and> ok resp \<and> json_body resp = Inr td
                    \<and> r = access_token td
                    \<and> priv_accessToken st' = Some (access_token td)
                    \<and> priv_tokenExpiry st' = now + expires_in td"
    if ?miss "getAccessToken p st = (Inr r, st')" for r st'
  proof -
    have "requestToken p now ?st0 = (Inr r, st')"
      using that miss by simp
    from requestToken_success [OF this] show ?thesis by auto
  qed
  have window_miss: ?miss if "priv_tokenExpiry st = t0 + 400" "t0 + 100 \<le> now"
    using that by simp
  have part1: "priv_accessToken st = Some t \<and> t \<noteq> [] \<and> now + 300 < priv_tokenExpiry st \<longrightarrow>
        getAccessToken p st = (Inr t, ?st0)"
    using hit by blast
  have part2: "?miss \<longrightarrow>
          (\<forall>key signature.
              own_property (priv_serviceAccount st) ''private_key'' = JStr key \<longrightarrow>
              sign_RS256 p key (toSign (priv_serviceAccount st) now) = Inr signature \<longrightarrow>
              requests (snd (getAccessToken p st)) =
                requests st @ [token_request (toSign (priv_serviceAccount st) now @ ''.''
                                               @ base64UrlEncode signature)]
              \<and> (\<forall>resp td.
                    fetch_token p (requests st)
                      (token_request (toSign (priv_serviceAccount st) now @ ''.''
                                        @ base64UrlEncode signature)) = Inr resp \<longrightarrow>
                    ok resp \<longrightarrow> json_body resp = Inr td \<longrightarrow>
                    getAccessToken p st =
                      (Inr (access_token td),
                       st\<lparr>clock_reads := Suc (clock_reads st),
                           requests := requests st @ [token_request
                             (toSign (priv_serviceAccount st) now @ ''.'' @ base64UrlEncode signature)],
                           priv_accessToken := Some (access_token td),
                           priv_tokenExpiry := now + expires_in td\<rparr>)))
          \<and> (\<forall>r st'. getAccessToken p st = (Inr r, st') \<longrightarrow>
                (\<exists>jwt resp td.
                    requests st' = requests st @ [token_request jwt]
                    \<and> fetch_token p (requests st) (token_request jwt) = Inr resp
                    \<and> ok resp \<and> json_body resp = Inr td
                    \<and> r = access_token td
                    \<and> priv_accessToken st' = Some (access_token td)
                    \<and> priv_tokenExpiry st' = now + expires_in td))"
    using sent stored fresh by (intro impI conjI allI) blast+
  have part3: "priv_accessToken st = Some t \<and> t \<noteq> [] \<and> priv_tokenExpiry st = t0 + 400 \<longrightarrow>
          (now < t0 + 100 \<longrightarrow> getAccessToken p st = (Inr t, ?st0))
          \<and> (t0 + 100 \<le> now \<longrightarrow>
               (\<forall>key signature.
                  own_property (priv_serviceAccount st) ''private_key'' = JStr key \<longrightarrow>
                  sign_RS256 p key (toSign (priv_serviceAccount st) now) = Inr signature \<longrightarrow>
                  requests (snd (getAccessToken p st)) =
                    requests st @ [token_request (toSign (priv_serviceAccount st) now @ ''.''
                                                   @ base64UrlEncode signature)]))"
  proof (intro impI conjI allI)
    assume a: "priv_accessToken st = Some t \<and> t \<noteq> [] \<and> priv_tokenExpiry st = t0 + 400"
      and "now < t0 + 100"
    then show "getAccessToken p st = (Inr t, ?st0)"
      by (intro hit) simp_all
  next
    fix key signature
    assume "priv_accessToken st = Some t \<and> t \<noteq> [] \<and> priv_tokenExpiry st = t0 + 400"
      and "t0 + 100 \<le> now"
      and "own_property (priv_serviceAccount st) ''private_key'' = JStr key"
      and "sign_RS256 p key (toSign (priv_serviceAccount st) now) = Inr signature"
    then show "requests (snd (getAccessToken p st)) =
                    requests st @ [token_request (toSign (priv_serviceAccount st) now @ ''.''
                                                   @ base64UrlEncode signature)]"
      by (intro sent window_miss) simp_all
  qed
  from part1 part2 part3 show ?thesis by (intro conjI)
qed

theorem getAccessToken_cache_witness:
  "getAccessToken demo_platform warm_service = (Inr ''abc'', warm_service\<lparr>clock_reads := 1\<rparr>)
   \<and> requests (snd (getAccessToken later_platform warm_service)) =
       [token_request (toSign demo_account 1700000100 @ ''.'' @ base64UrlEncode ''sig'')]
   \<and> getAccessToken demo_platform demo_service =
       (Inr ''abc'',
        demo_service\<lparr>clock_reads := 1,
          requests := [token_request (toSign demo_account 1700000000 @ ''.'' @ base64UrlEncode ''sig'')],
          priv_accessToken := Some ''abc'', priv_tokenExpiry := 1700003600\<rparr>)"
proof -
  have n1: "(1700000000::int) = Date_now demo_platform (clock_reads warm_service) div 1000"
    by (simp add: demo_platform_def)
  have n2: "(1700000100::int) = Date_now later_platform (clock_reads warm_service) div 1000"
    by (simp add: later_platform_def)
  have n3: "(1700000000::int) = Date_now demo_platform (clock_reads demo_service) div 1000"
    by (simp add: demo_platform_def)
  have w: "priv_accessToken warm_service = Some ''abc''" "priv_tokenExpiry warm_service = 1700000000 + 400"
    "requests warm_service = []" "clock_reads warm_service = 0"
    "priv_serviceAccount warm_service = demo_account"
    by (simp_all add: warm_service_def demo_service_def)
  have d: "priv_accessToken demo_service = None" "requests demo_service = []"
    "clock_reads demo_service = 0" "priv_serviceAccount demo_service = demo_account"
    by (simp_all add: demo_service_def)
  have k: "own_property demo_account ''private_key'' = JStr ''key''"
    by (simp add: demo_account_def)
  have a: "getAccessToken demo_platform warm_service = (Inr ''abc'', warm_service\<lparr>clock_reads := 1\<rparr>)"
    using getAccessToken_cache [OF n1, of "''abc''" 1700000000] w by simp
  have b: "requests (snd (getAccessToken later_platform warm_service)) =
       [token_request (toSign demo_account 1700000100 @ ''.'' @ base64UrlEncode ''sig'')]"
    using getAccessToken_cache [OF n2, of "''abc''" 1700000000] w k
    by (simp add: later_platform_def demo_platform_def)
  have c: "getAccessToken demo_platform demo_service =
       (Inr ''abc'',
        demo_service\<lparr>clock_reads := 1,
          requests := [token_request (toSign demo_account 1700000000 @ ''.'' @ base64UrlEncode ''sig'')],
          priv_accessToken := Some ''abc'', priv_tokenExpiry := 1700003600\<rparr>)"
    using getAccessToken_cache [OF n3, of "''abc''" 1700000000] d k
    by (simp add: demo_platform_def)
  from a b c show ?thesis by (intro conjI)
qed

text \<open>
  Claim C9. When the token endpoint answers with a status that is not a success and the
  body \<open>tokenError\<close>, \<open>getAccessToken\<close> throws
  \<open>Error('Failed to obtain access token: ' + tokenError)\<close> (the spec's
  \<open>TokenExchangeFailed\<close>); when the send endpoint answers with a status that is not a
  success and the body \<open>errorText\<close>, \<open>sendNotification\<close> and \<open>sendTopicNotification\<close> throw
  \<open>Error('FCM API error: ' + errorText)\<close> (the spec's \<open>DispatchFailed\<close>). The body is in the
  message as it was received.
\<close>

theorem remote_failure_carries_body:
  assumes now: "now = Date_now p (clock_reads st) div 1000"
  shows
    "(\<not> (\<exists>c. priv_accessToken st = Some c \<and> c \<noteq> [] \<and> now + 300 < priv_tokenExpiry st) \<longrightarrow>
      own_property (priv_serviceAccount st) ''private_key'' = JStr key \<longrightarrow>
      sign_RS256 p key (toSign (priv_serviceAccount st) now) = Inr signature \<longrightarrow>
      fetch_token p (requests st)
        (token_request (toSign (priv_serviceAccount st) now @ ''.'' @ base64UrlEncode signature))
          = Inr tokenResponse \<longrightarrow>
      \<not> ok tokenResponse \<longrightarrow> text_body tokenResponse = Inr tokenError \<longrightarrow>
        fst (getAccessToken p st) = Inl (Error (''Failed to obtain access token: '' @ tokenError)))
     \<and> (token \<noteq> [] \<longrightarrow> title notification \<noteq> [] \<longrightarrow>
        getAccessToken p st = (Inr accessToken, st1) \<longrightarrow>
        ToString (own_property (priv_serviceAccount st1) ''project_id'') = Inr project_id \<longrightarrow>
        fetch_send p (requests st1)
          (send_request project_id accessToken (message_json ''token'' token notification data))
            = Inr response \<longrightarrow>
        \<not> ok response \<longrightarrow> text_body response = Inr errorText \<longrightarrow>
          fst (sendNotification p token notification data st)
            = Inl (Error (''FCM API error: '' @ errorText)))
     \<and> (topic \<noteq> [] \<longrightarrow> title notification \<noteq> [] \<longrightarrow>
        getAccessToken p st = (Inr accessToken, st1) \<longrightarrow>
        ToString (own_property (priv_serviceAccount st1) ''project_id'') = Inr project_id \<longrightarrow>
        fetch_send p (requests st1)
          (send_request project_id accessToken
             (message_json ''topic'' (replace_first ''/topics/'' [] (formattedTopic topic))
                notification data))
            = Inr response \<longrightarrow>
        \<not> ok response \<longrightarrow> text_body response = Inr errorText \<longrightarrow>
          fst (sendTopicNotification p topic notification data st)
            = Inl (Error (''FCM API error: '' @ errorText)))"
proof -
  let ?st0 = "st\<lparr>clock_reads := Suc (clock_reads st)\<rparr>"
  have token_part: "fst (getAccessToken p st) = Inl (Error (''Failed to obtain access token: '' @ tokenError))"
    if m: "\<not> (\<exists>c. priv_accessToken st = Some c \<and> c \<noteq> [] \<and> now + 300 < priv_tokenExpiry st)"
      and k: "own_property (priv_serviceAccount st) ''private_key'' = JStr key"
      and s: "sign_RS256 p key (toSign (priv_serviceAccount st) now) = Inr signature"
      and f: "fetch_token p (requests st)
        (token_request (toSign (priv_serviceAccount st) now @ ''.'' @ base64UrlEncode signature))
          = Inr tokenResponse"
      and r: "\<not> ok tokenResponse" "text_body tokenResponse = Inr tokenError"
  proof -
    have "cached_token st now = None"
      using m by (cases "cached_token st now") (auto simp: cached_token_Some_iff)
    then have "getAccessToken p st = requestToken p now ?st0"
      using getAccessToken_miss [of st p] now by simp
    also have "\<dots> = exchange p now
        (toSign (priv_serviceAccount st) now @ ''.'' @ base64UrlEncode signature) ?st0"
      using k s by (simp add: requestToken_signed)
    finally show ?thesis
      using f r by (simp add: exchange_refused)
  qed
  have send_part: "fst (sendNotification p token notification data st)
            = Inl (Error (''FCM API error: '' @ errorText))"
    if "token \<noteq> []" "title notification \<noteq> []"
      "getAccessToken p st = (Inr accessToken, st1)"
      "ToString (own_property (priv_serviceAccount st1) ''project_id'') = Inr project_id"
      "fetch_send p (requests st1)
          (send_request project_id accessToken (message_json ''token'' token notification data))
            = Inr response"
      "\<not> ok response" "text_body response = Inr errorText"
    using that by (simp add: sendNotification_def post_message_refused)
  have topic_part: "fst (sendTopicNotification p topic notification data st)
            = Inl (Error (''FCM API error: '' @ errorText))"
    if "topic \<noteq> []" "title notification \<noteq> []"
      "getAccessToken p st = (Inr accessToken, st1)"
      "ToString (own_property (priv_serviceAccount st1) ''project_id'') = Inr project_id"
      "fetch_send p (requests st1)
          (send_request project_id accessToken
             (message_json ''topic'' (replace_first ''/topics/'' [] (formattedTopic topic))
                notification data))
            = Inr response"
      "\<not> ok response" "text_body response = Inr errorText"
    using that by (simp add: sendTopicNotification_def post_message_refused)
  from token_part send_part topic_part show ?thesis by blast
qed

lemma half_token:
  "getAccessToken half_platform demo_service =
       (Inr ''abc'',
        demo_service\<lparr>clock_reads := 1,
          requests := [token_request (toSign demo_account 1700000000 @ ''.'' @ base64UrlEncode ''sig'')],
          priv_accessToken := Some ''abc'', priv_tokenExpiry := 1700003600\<rparr>)"
  by (simp add: getAccessToken_def half_platform_def demo_platform_def demo_service_def
      cached_token_def requestToken_def demo_account_def exchange_def Let_def)

theorem remote_failure_carries_body_witness:
  "fst (getAccessToken refusing_platform stale_service)
     = Inl (Error ''Failed to obtain access token: denied'')
   \<and> fst (sendNotification half_platform ''devtok'' greeting [] demo_service)
       = Inl (Error ''FCM API error: denied'')"
proof -
  let ?refusal = "\<lparr>ok = False, text_body = Inr ''denied'',
                   json_body = Inl (SyntaxError ''Unexpected token d'')\<rparr>"
  have n1: "(1700000000::int) = Date_now refusing_platform (clock_reads stale_service) div 1000"
    by (simp add: refusing_platform_def)
  have n2: "(1700000000::int) = Date_now half_platform (clock_reads demo_service) div 1000"
    by (simp add: half_platform_def demo_platform_def)
  have a: "fst (getAccessToken refusing_platform stale_service)
     = Inl (Error ''Failed to obtain access token: denied'')"
    using remote_failure_carries_body [OF n1, where key = "''key''" and signature = "''sig''"
        and tokenResponse = ?refusal and tokenError = "''denied''"]
    by (simp add: refusing_platform_def stale_service_def demo_service_def demo_account_def)
  have b: "fst (sendNotification half_platform ''devtok'' greeting [] demo_service)
       = Inl (Error ''FCM API error: denied'')"
    using remote_failure_carries_body [OF n2, where token = "''devtok''" and notification = greeting
        and accessToken = "''abc''" and project_id = "''p''" and data = "[]"
        and response = ?refusal and errorText = "''denied''"] half_token
    by (simp add: half_platform_def refusing_platform_def demo_service_def demo_account_def greeting_def)
  from a b show ?thesis by (intro conjI)
qed

section \<open>Claims about the credential\<close>

lemma falsy_iff:
  "\<not> truthy v \<longleftrightarrow> v = JUndefined \<or> v = JStr [] \<or> v = JNull \<or> v = JBool False \<or> v = JNum 0"
  by (cases v) auto

lemma field_missing_or_falsy_iff: "field_missing_or_falsy v k \<longleftrightarrow> \<not> truthy (own_property v k)"
  by (simp add: field_missing_or_falsy_def falsy_iff)

lemma validate_parsed_fails_iff:
  "isl (validate_parsed v) \<longleftrightarrow> (\<exists>k \<in> set required_fields. field_missing_or_falsy v k)"
  by (cases v) (auto simp: validate_parsed_def required_fields_def field_missing_or_falsy_iff)

lemma createServiceAccountFromJson_cases:
  "createServiceAccountFromJson JSON_parse text =
     (case JSON_parse text of
        Inl e \<Rightarrow> Inl (Error (''Invalid service account JSON: '' @ message e))
      | Inr v \<Rightarrow>
          (case validate_parsed v of
             Inl e \<Rightarrow> Inl (Error (''Invalid service account JSON: '' @ message e))
           | Inr a \<Rightarrow> Inr a))"
  by (simp add: createServiceAccountFromJson_def split: sum.splits)

lemma validate_parsed_Inr: "validate_parsed v = Inr a \<Longrightarrow> a = v"
  by (cases v) (auto simp: validate_parsed_def split: if_splits)

text \<open>
  Claim C4, as stated, fails: the credential whose \<open>private_key\<close> is \<open>false\<close> parses, none
  of its three required fields is missing or empty, and both constructors reject it.
\<close>

theorem credential_missing_or_empty_counterexample:
  "isl (createServiceAccountFromJson demo_parse (JSON_stringify odd_account))
   \<and> demo_parse (JSON_stringify odd_account) = Inr odd_account
   \<and> \<not> field_missing_or_empty odd_account ''private_key''
   \<and> \<not> field_missing_or_empty odd_account ''client_email''
   \<and> \<not> field_missing_or_empty odd_account ''project_id''
   \<and> isl (createFCMService odd_account)"
  by (simp add: createServiceAccountFromJson_cases demo_parse_def odd_account_def demo_account_def
      validate_parsed_def field_missing_or_empty_def createFCMService_def
      quote_def escape_char_def)

text \<open>
  Claim C4, amended. \<open>createServiceAccountFromJson\<close> throws exactly when \<open>JSON.parse\<close>
  throws or one of \<open>private_key\<close>, \<open>client_email\<close>, \<open>project_id\<close> is missing or falsy in the
  parsed value (the empty string, \<open>null\<close>, \<open>false\<close> or \<open>0\<close>; a value that is no object has no
  field); what it throws is an \<open>Error\<close> whose message starts
  \<open>Invalid service account JSON: \<close>, and what it returns is the parsed value.
  \<open>createFCMService\<close> throws its \<open>Error\<close> exactly when one of the three fields of the
  object is missing or falsy, and otherwise returns a service that holds the object and
  no token: the check is made when the service is built. For a field that is absent or a
  string, missing or falsy means missing or empty.
\<close>

theorem credential_fails_iff:
  "(isl (createServiceAccountFromJson JSON_parse text) \<longleftrightarrow>
      isl (JSON_parse text)
      \<or> (\<exists>v. JSON_parse text = Inr v \<and> (\<exists>k \<in> set required_fields. field_missing_or_falsy v k)))
   \<and> (\<forall>e. createServiceAccountFromJson JSON_parse text = Inl e \<longrightarrow>
          (\<exists>m. e = Error (''Invalid service account JSON: '' @ m)))
   \<and> (\<forall>a. createServiceAccountFromJson JSON_parse text = Inr a \<longrightarrow> JSON_parse text = Inr a)
   \<and> (isl (createFCMService serviceAccount) \<longleftrightarrow>
        (\<exists>k \<in> set required_fields. field_missing_or_falsy serviceAccount k))
   \<and> (\<forall>e. createFCMService serviceAccount = Inl e \<longrightarrow>
          e = Error ''Invalid Firebase service account. Must include private_key, client_email and project_id'')
   \<and> (\<forall>st. createFCMService serviceAccount = Inr st \<longrightarrow>
          priv_serviceAccount st = serviceAccount \<and> priv_accessToken st = None)
   \<and> ((\<forall>k \<in> set required_fields.
          own_property serviceAccount k = JUndefined \<or> (\<exists>s. own_property serviceAccount k = JStr s)) \<longrightarrow>
        (\<forall>k \<in> set required_fields.
          field_missing_or_falsy serviceAccount k = field_missing_or_empty serviceAccount k))"
proof -
  have a: "isl (createServiceAccountFromJson JSON_parse text) \<longleftrightarrow>
      isl (JSON_parse text)
      \<or> (\<exists>v. JSON_parse text = Inr v \<and> (\<exists>k \<in> set required_fields. field_missing_or_falsy v k))"
  proof (cases "JSON_parse text")
    case (Inl e)
    then show ?thesis by (simp add: createServiceAccountFromJson_cases)
  next
    case (Inr v)
    have "isl (createServiceAccountFromJson JSON_parse text) = isl (validate_parsed v)"
      using Inr by (simp add: createServiceAccountFromJson_cases split: sum.splits)
    then show ?thesis using Inr by (simp add: validate_parsed_fails_iff)
  qed
  have b: "\<exists>m. e = Error (''Invalid service account JSON: '' @ m)"
    if "createServiceAccountFromJson JSON_parse text = Inl e" for e
    using that by (auto simp: createServiceAccountFromJson_cases split: sum.splits)
  have c: "JSON_parse text = Inr a"
    if "createServiceAccountFromJson JSON_parse text = Inr a" for a
    using that
    by (auto simp: createServiceAccountFromJson_cases split: sum.splits dest: validate_parsed_Inr)
  have d: "isl (createFCMService serviceAccount) \<longleftrightarrow>
        (\<exists>k \<in> set required_fields. field_missing_or_falsy serviceAccount k)"
    by (cases serviceAccount)
       (auto simp: createFCMService_def required_fields_def field_missing_or_falsy_iff)
  have e: "e = Error ''Invalid Firebase service account. Must include private_key, client_email and project_id''"
    if "createFCMService serviceAccount = Inl e" for e
    using that by (simp add: createFCMService_def split: if_splits)
  have f: "priv_serviceAccount st = serviceAccount \<and> priv_accessToken st = None"
    if "createFCMService serviceAccount = Inr st" for st
    using that by (auto simp: createFCMService_def split: if_splits)
  have g: "field_missing_or_falsy serviceAccount k = field_missing_or_empty serviceAccount k"
    if "own_property serviceAccount k = JUndefined \<or> (\<exists>s. own_property serviceAccount k = JStr s)"
    for k
    using that by (auto simp: field_missing_or_falsy_def field_missing_or_empty_def)
  from a b c d e f g show ?thesis by blast
qed

theorem credential_fails_iff_witness:
  "createServiceAccountFromJson demo_parse ''null''
     = Inl (Error (''Invalid service account JSON: Cannot read properties of null (reading private_key)''))
   \<and> createServiceAccountFromJson demo_parse ''{''
     = Inl (Error ''Invalid service account JSON: Unexpected token'')
   \<and> isl (createServiceAccountFromJson demo_parse (JSON_stringify odd_account))
   \<and> \<not> isl (createServiceAccountFromJson demo_parse (JSON_stringify demo_account))
   \<and> \<not> isl (createFCMService demo_account)
   \<and> isl (createFCMService (JObj [(''private_key'', JStr ''key''), (''client_email'', JStr [])]))"
proof -
  have p: "demo_parse (JSON_stringify odd_account) = Inr odd_account"
    "demo_parse (JSON_stringify demo_account) = Inr demo_account"
    by (simp_all add: demo_parse_def odd_account_def demo_account_def quote_def escape_char_def)
  have 1: "createServiceAccountFromJson demo_parse ''null''
     = Inl (Error (''Invalid service account JSON: Cannot read properties of null (reading private_key)''))"
    by (simp add: createServiceAccountFromJson_cases demo_parse_def validate_parsed_def
        demo_account_def odd_account_def quote_def escape_char_def)
  have 2: "createServiceAccountFromJson demo_parse ''{''
     = Inl (Error ''Invalid service account JSON: Unexpected token'')"
    by (simp add: createServiceAccountFromJson_cases demo_parse_def 
        demo_account_def odd_account_def quote_def escape_char_def)
  have 3: "isl (createServiceAccountFromJson demo_parse (JSON_stringify odd_account))"
    using credential_fails_iff [of demo_parse "JSON_stringify odd_account"] p
    by (simp add: required_fields_def field_missing_or_falsy_def odd_account_def)
  have 4: "\<not> isl (createServiceAccountFromJson demo_parse (JSON_stringify demo_account))"
    using credential_fails_iff [of demo_parse "JSON_stringify demo_account"] p
    by (simp add: required_fields_def field_missing_or_falsy_def demo_account_def)
  have 5: "\<not> isl (createFCMService demo_account)"
    using credential_fails_iff [of _ _ demo_account]
    by (simp add: required_fields_def field_missing_or_falsy_def demo_account_def)
  have 6: "isl (createFCMService (JObj [(''private_key'', JStr ''key''), (''client_email'', JStr [])]))"
    using credential_fails_iff [of _ _ "JObj [(''private_key'', JStr ''key''), (''client_email'', JStr [])]"]
    by (simp add: required_fields_def field_missing_or_falsy_def)
  from 1 2 3 4 5 6 show ?thesis by (intro conjI)
qed

text \<open>
  Claim C7. When the text parses to an object in which \<open>private_key\<close>, \<open>client_email\<close> and
  \<open>project_id\<close> are strings that are not empty, \<open>createServiceAccountFromJson\<close> returns
  the parsed object itself: every property with the value it was parsed to, in the same
  order, none added.
\<close>

theorem createServiceAccountFromJson_round_trip:
  assumes parsed: "JSON_parse text = Inr (JObj props)"
    and present: "\<forall>k \<in> set required_fields. \<exists>s. map_of props k = Some (JStr s) \<and> s \<noteq> []"
  shows "createServiceAccountFromJson JSON_parse text = Inr (JObj props)"
  using assms
  by (auto simp: createServiceAccountFromJson_cases validate_parsed_def required_fields_def)

theorem createServiceAccountFromJson_round_trip_witness:
  "demo_parse (JSON_stringify demo_account) = Inr demo_account
   \<and> createServiceAccountFromJson demo_parse (JSON_stringify demo_account) =
       Inr (JObj [(''project_id'', JStr ''p''), (''private_key'', JStr ''key''),
                  (''client_email'', JStr ''a@b.c'')])"
proof -
  have p: "demo_parse (JSON_stringify demo_account) =
             Inr (JObj [(''project_id'', JStr ''p''), (''private_key'', JStr ''key''),
                  (''client_email'', JStr ''a@b.c'')])"
    by (simp add: demo_parse_def demo_account_def)
  have f: "\<forall>k \<in> set required_fields. \<exists>s.
             map_of [(''project_id'', JStr ''p''), (''private_key'', JStr ''key''),
                  (''client_email'', JStr ''a@b.c'')] k = Some (JStr s) \<and> s \<noteq> []"
    by (simp add: required_fields_def)
  from createServiceAccountFromJson_round_trip [of demo_parse "JSON_stringify demo_account", OF p f] p show ?thesis
    by (simp add: demo_account_def)
qed

section \<open>The JWT\<close>

lemma b64_in_alphabet: "n < 64 \<Longrightarrow> b64 n \<in> set b64_alphabet"
proof -
  assume "n < 64"
  moreover have "length b64_alphabet = 64" by (simp add: b64_alphabet_def alphanumerics_def)
  ultimately show ?thesis unfolding b64_def by (metis nth_mem)
qed

lemma byte_bounds:
  fixes a b :: char
  shows "(of_char a :: nat) div 4 < 64"
    and "((of_char a :: nat) mod 4) * 16 < 64"
    and "((of_char a :: nat) mod 4) * 16 + (of_char b :: nat) div 16 < 64"
    and "((of_char a :: nat) mod 16) * 4 < 64"
    and "((of_char a :: nat) mod 16) * 4 + (of_char b :: nat) div 64 < 64"
    and "(of_char a :: nat) mod 64 < 64"
proof -
  have a: "(of_char a :: nat) < 256" and b: "(of_char b :: nat) < 256"
    by simp_all
  show "(of_char a :: nat) div 4 < 64" using a by arith
  show "((of_char a :: nat) mod 4) * 16 < 64"
    using mod_less_divisor [of 4 "of_char a"] by linarith
  show "((of_char a :: nat) mod 4) * 16 + (of_char b :: nat) div 16 < 64"
  proof -
    have "(of_char a :: nat) mod 4 \<le> 3" using mod_less_divisor [of 4 "of_char a"] by linarith
    moreover have "(of_char b :: nat) div 16 \<le> 15" using b by arith
    ultimately show ?thesis by linarith
  qed
  show "((of_char a :: nat) mod 16) * 4 < 64"
    using mod_less_divisor [of 16 "of_char a"] by linarith
  show "((of_char a :: nat) mod 16) * 4 + (of_char b :: nat) div 64 < 64"
  proof -
    have "(of_char a :: nat) mod 16 \<le> 15" using mod_less_divisor [of 16 "of_char a"] by linarith
    moreover have "(of_char b :: nat) div 64 \<le> 3" using b by arith
    ultimately show ?thesis by linarith
  qed
  show "(of_char a :: nat) mod 64 < 64" by simp
qed

lemma btoa_shape:
  "\<exists>core pad. btoa bs = core @ pad \<and> set core \<subseteq> set b64_alphabet \<and> set pad \<subseteq> {CHR ''=''}"
proof (induction bs rule: btoa.induct)
  case 1
  show ?case by simp
next
  case (2 a)
  have "btoa [a] = [b64 (of_char a div 4), b64 ((of_char a mod 4) * 16)] @ ''==''"
    by (simp add: Let_def)
  moreover have "set [b64 (of_char a div 4), b64 ((of_char a mod 4) * 16)] \<subseteq> set b64_alphabet"
    using byte_bounds(1,2) [of a] by (simp add: b64_in_alphabet)
  ultimately show ?case by (intro exI [of _ "[b64 (of_char a div 4), b64 ((of_char a mod 4) * 16)]"] exI [of _ "''==''"]) simp
next
  case (3 a b)
  let ?core = "[b64 (of_char a div 4), b64 ((of_char a mod 4) * 16 + of_char b div 16),
                b64 ((of_char b mod 16) * 4)]"
  have "btoa [a, b] = ?core @ ''=''"
    by (simp add: Let_def)
  moreover have "set ?core \<subseteq> set b64_alphabet"
    using byte_bounds(1) [of a] byte_bounds(3) [of a b] byte_bounds(4) [of b]
    by (simp add: b64_in_alphabet)
  ultimately show ?case by (intro exI [of _ ?core] exI [of _ "''=''"]) simp
next
  case (4 a b c rest)
  let ?group = "[b64 (of_char a div 4), b64 ((of_char a mod 4) * 16 + of_char b div 16),
                 b64 ((of_char b mod 16) * 4 + of_char c div 64), b64 (of_char c mod 64)]"
  from 4 obtain core pad where r: "btoa rest = core @ pad" "set core \<subseteq> set b64_alphabet"
    "set pad \<subseteq> {CHR ''=''}" by blast
  have "btoa (a # b # c # rest) = (?group @ core) @ pad"
    using r(1) by (simp add: Let_def)
  moreover have "set ?group \<subseteq> set b64_alphabet"
    using byte_bounds(1) [of a] byte_bounds(3) [of a b] byte_bounds(5) [of b c] byte_bounds(6) [of c]
    by (simp add: b64_in_alphabet)
  ultimately show ?case using r(2,3)
    by (intro exI [of _ "?group @ core"] exI [of _ pad]) simp
qed

lemma url_char_alphabet: "c \<in> set b64_alphabet \<Longrightarrow> url_char c \<in> set base64url_alphabet"
  by (auto simp: b64_alphabet_def base64url_alphabet_def url_char_def)

lemma equals_not_in_alphabet: "CHR ''='' \<notin> set base64url_alphabet"
  by (simp add: base64url_alphabet_def alphanumerics_def)

lemma url_char_equals: "url_char CHR ''='' = CHR ''=''"
  by (simp add: url_char_def)

lemma dropWhile_none: "\<forall>x \<in> set ys. \<not> P x \<Longrightarrow> dropWhile P ys = ys"
  by (cases ys) auto

lemma strip_trailing_equals_pad:
  assumes "set pad \<subseteq> {CHR ''=''}" and "CHR ''='' \<notin> set core"
  shows "strip_trailing_equals (core @ pad) = core"
proof -
  have "dropWhile (\<lambda>x. x = CHR ''='') (rev pad @ rev core) = dropWhile (\<lambda>x. x = CHR ''='') (rev core)"
    using assms(1) by (intro dropWhile_append2) auto
  also have "\<dots> = rev core"
    using assms(2) by (intro dropWhile_none) auto
  finally show ?thesis by (simp add: strip_trailing_equals_def)
qed

lemma base64UrlEncode_alphabet: "set (base64UrlEncode buffer) \<subseteq> set base64url_alphabet"
proof -
  obtain core pad where s: "btoa buffer = core @ pad" "set core \<subseteq> set b64_alphabet"
    "set pad \<subseteq> {CHR ''=''}" using btoa_shape by blast
  have pad: "map url_char pad = pad"
    using s(3) by (intro map_idI) (auto simp: url_char_equals)
  have core: "set (map url_char core) \<subseteq> set base64url_alphabet"
    using s(2) url_char_alphabet by auto
  then have noeq: "CHR ''='' \<notin> set (map url_char core)"
    using equals_not_in_alphabet by blast
  have "replace_char CHR ''/'' CHR ''_'' (replace_char CHR ''+'' CHR ''-'' (btoa buffer))
          = map url_char (btoa buffer)"
    by (simp add: replace_char_def url_char_def comp_def)
  then have "replace_char CHR ''/'' CHR ''_'' (replace_char CHR ''+'' CHR ''-'' (btoa buffer))
          = map url_char core @ pad"
    using pad by (simp add: s(1))
  then have "base64UrlEncode buffer = map url_char core"
    using strip_trailing_equals_pad [OF s(3) noeq] by (simp add: base64UrlEncode_def)
  then show ?thesis using core by simp
qed

text \<open>The test vectors of RFC 4648 for \<open>btoa\<close>, and two inputs that need \<open>-\<close> and \<open>_\<close>.\<close>

lemma btoa_rfc4648:
  "btoa [] = []" "btoa ''f'' = ''Zg==''" "btoa ''fo'' = ''Zm8=''" "btoa ''foo'' = ''Zm9v''"
  "btoa ''foob'' = ''Zm9vYg==''" "btoa ''fooba'' = ''Zm9vYmE=''" "btoa ''foobar'' = ''Zm9vYmFy''"
  by (simp_all add: b64_def b64_alphabet_def alphanumerics_def)

lemma base64UrlEncode_examples:
  "base64UrlEncode ''f'' = ''Zg''" "base64UrlEncode [CHR 0xfb, CHR 0xff] = ''-_8''"
  "base64UrlEncode [CHR 0xff, CHR 0xef] = ''_-8''"
  by (simp_all add: base64UrlEncode_def b64_def b64_alphabet_def alphanumerics_def
      replace_char_def strip_trailing_equals_def)

lemma header_text: \<open>JSON_stringify jwtHeader = ''{"alg":"RS256","typ":"JWT"}''\<close>
  by (simp add: jwtHeader_def quote_def escape_char_def)

lemma header_base64url:
  \<open>base64UrlEncode (TextEncoder_encode ''{"alg":"RS256","typ":"JWT"}'') =
     ''eyJhbGciOiJSUzI1NiIsInR5cCI6IkpXVCJ9''\<close>
  by (simp add: base64UrlEncode_def TextEncoder_encode_def
      b64_def b64_alphabet_def alphanumerics_def replace_char_def strip_trailing_equals_def)

lemma quote_plain: \<open>quote ''iss'' = ''"iss"''\<close> \<open>quote ''scope'' = ''"scope"''\<close>
  \<open>quote ''aud'' = ''"aud"''\<close> \<open>quote ''exp'' = ''"exp"''\<close> \<open>quote ''iat'' = ''"iat"''\<close>
  \<open>quote ''https://www.googleapis.com/auth/firebase.messaging'' =
     ''"https://www.googleapis.com/auth/firebase.messaging"''\<close>
  \<open>quote ''https://oauth2.googleapis.com/token'' = ''"https://oauth2.googleapis.com/token"''\<close>
  by (simp_all add: quote_def escape_char_def)

lemma claims_text:
  assumes "own_property serviceAccount ''client_email'' = JStr email"
  shows \<open>JSON_stringify (jwtClaimSet serviceAccount now) =
     ''{"iss":'' @ quote email
       @ '',"scope":"https://www.googleapis.com/auth/firebase.messaging"''
       @ '',"aud":"https://oauth2.googleapis.com/token"''
       @ '',"exp":'' @ decimal (now + 3600) @ '',"iat":'' @ decimal now @ ''}''\<close>
  using assms by (simp add: jwtClaimSet_def quote_plain)

lemma dot_not_in_alphabet: "CHR ''.'' \<notin> set base64url_alphabet"
  by (simp add: base64url_alphabet_def alphanumerics_def)

text \<open>
  Claim C2. On a cache miss, with the credential's \<open>client_email\<close> and \<open>private_key\<close>
  strings and the signature obtained, \<open>getAccessToken\<close> sends one request, a POST to the
  token endpoint whose form carries the grant type and the assertion
  \<open>header.claims.sig\<close>, where
  \<^item> \<open>header\<close> is the base64url text of \<open>{"alg":"RS256","typ":"JWT"}\<close>;
  \<^item> \<open>claims\<close> is the base64url text of the JSON object with \<open>iss\<close> the credential's
    \<open>client_email\<close>, \<open>scope\<close> the messaging scope, \<open>aud\<close> the URL of the token endpoint,
    \<open>exp = now + 3600\<close> and \<open>iat = now\<close>;
  \<^item> \<open>sig\<close> is the base64url text of the signature, which was made over \<open>header.claims\<close>;
  \<^item> the three parts are written in the base64url alphabet, which has neither \<open>=\<close> (no
    padding) nor the separator \<open>.\<close>.
\<close>

theorem getAccessToken_jwt:
  assumes now: "now = Date_now p (clock_reads st) div 1000"
    and miss: "\<not> (\<exists>c. priv_accessToken st = Some c \<and> c \<noteq> [] \<and> now + 300 < priv_tokenExpiry st)"
    and email: "own_property (priv_serviceAccount st) ''client_email'' = JStr email"
    and key: "own_property (priv_serviceAccount st) ''private_key'' = JStr key"
    and signed: "sign_RS256 p key (toSign (priv_serviceAccount st) now) = Inr signature"
  shows \<open>\<exists>header claims sig.
     requests (snd (getAccessToken p st)) =
       requests st @
         [\<lparr>req_url = ''https://oauth2.googleapis.com/token'', req_method = ''POST'',
           req_headers = [(''Content-Type'', ''application/x-www-form-urlencoded'')],
           req_body = URLSearchParams
             [(''grant_type'', ''urn:ietf:params:oauth:grant-type:jwt-bearer''),
              (''assertion'', header @ ''.'' @ claims @ ''.'' @ sig)]\<rparr>]
     \<and> header = base64UrlEncode (TextEncoder_encode ''{"alg":"RS256","typ":"JWT"}'')
     \<and> header = ''eyJhbGciOiJSUzI1NiIsInR5cCI6IkpXVCJ9''
     \<and> claims = base64UrlEncode (TextEncoder_encode
          (''{"iss":'' @ quote email
            @ '',"scope":"https://www.googleapis.com/auth/firebase.messaging"''
            @ '',"aud":"https://oauth2.googleapis.com/token"''
            @ '',"exp":'' @ decimal (now + 3600) @ '',"iat":'' @ decimal now @ ''}''))
     \<and> sign_RS256 p key (header @ ''.'' @ claims) = Inr signature
     \<and> sig = base64UrlEncode signature
     \<and> set header \<union> set claims \<union> set sig \<subseteq> set base64url_alphabet
     \<and> CHR ''='' \<notin> set base64url_alphabet \<and> CHR ''.'' \<notin> set base64url_alphabet\<close>
proof -
  let ?st0 = "st\<lparr>clock_reads := Suc (clock_reads st)\<rparr>"
  let ?header = \<open>base64UrlEncode (TextEncoder_encode ''{"alg":"RS256","typ":"JWT"}'')\<close>
  let ?claims = \<open>base64UrlEncode (TextEncoder_encode
          (''{"iss":'' @ quote email
            @ '',"scope":"https://www.googleapis.com/auth/firebase.messaging"''
            @ '',"aud":"https://oauth2.googleapis.com/token"''
            @ '',"exp":'' @ decimal (now + 3600) @ '',"iat":'' @ decimal now @ ''}''))\<close>
  let ?sig = "base64UrlEncode signature"
  have ts: "toSign (priv_serviceAccount st) now = ?header @ ''.'' @ ?claims"
    unfolding toSign_def claims_text [OF email] header_text by simp
  have "cached_token st now = None"
    using miss by (cases "cached_token st now") (auto simp: cached_token_Some_iff)
  then have "getAccessToken p st = requestToken p now ?st0"
    using getAccessToken_miss [of st p] now by simp
  also have "\<dots> = exchange p now (toSign (priv_serviceAccount st) now @ ''.'' @ ?sig) ?st0"
    using key signed by (simp add: requestToken_signed)
  finally have "requests (snd (getAccessToken p st)) =
      requests st @ [token_request (toSign (priv_serviceAccount st) now @ ''.'' @ ?sig)]"
    by (simp add: exchange_request)
  then have r: "requests (snd (getAccessToken p st)) =
       requests st @
         [\<lparr>req_url = ''https://oauth2.googleapis.com/token'', req_method = ''POST'',
           req_headers = [(''Content-Type'', ''application/x-www-form-urlencoded'')],
           req_body = URLSearchParams
             [(''grant_type'', ''urn:ietf:params:oauth:grant-type:jwt-bearer''),
              (''assertion'', ?header @ ''.'' @ ?claims @ ''.'' @ ?sig)]\<rparr>]"
    unfolding ts token_request_def by simp
  have s: "sign_RS256 p key (?header @ ''.'' @ ?claims) = Inr signature"
    using signed unfolding ts .
  have a: "set ?header \<union> set ?claims \<union> set ?sig \<subseteq> set base64url_alphabet"
    using base64UrlEncode_alphabet by blast
  show ?thesis
    using r header_base64url s a equals_not_in_alphabet dot_not_in_alphabet
    by (intro exI [of _ ?header] exI [of _ ?claims] exI [of _ ?sig] conjI) simp_all
qed

lemma demo_claims:
  \<open>base64UrlEncode (TextEncoder_encode
      ''{"iss":"a@b.c","scope":"https://www.googleapis.com/auth/firebase.messaging","aud":"https://oauth2.googleapis.com/token","exp":1700003600,"iat":1700000000}'')
    = ''eyJpc3MiOiJhQGIuYyIsInNjb3BlIjoiaHR0cHM6Ly93d3cuZ29vZ2xlYXBpcy5jb20vYXV0aC9maXJlYmFzZS5tZXNzYWdpbmciLCJhdWQiOiJodHRwczovL29hdXRoMi5nb29nbGVhcGlzLmNvbS90b2tlbiIsImV4cCI6MTcwMDAwMzYwMCwiaWF0IjoxNzAwMDAwMDAwfQ''\<close>
  by (simp add: base64UrlEncode_def TextEncoder_encode_def
      b64_def b64_alphabet_def alphanumerics_def replace_char_def strip_trailing_equals_def)

theorem getAccessToken_jwt_witness:
  "map req_body (requests (snd (getAccessToken demo_platform demo_service))) =
     [URLSearchParams
        [(''grant_type'', ''urn:ietf:params:oauth:grant-type:jwt-bearer''),
         (''assertion'',
          ''eyJhbGciOiJSUzI1NiIsInR5cCI6IkpXVCJ9.eyJpc3MiOiJhQGIuYyIsInNjb3BlIjoiaHR0cHM6Ly93d3cuZ29vZ2xlYXBpcy5jb20vYXV0aC9maXJlYmFzZS5tZXNzYWdpbmciLCJhdWQiOiJodHRwczovL29hdXRoMi5nb29nbGVhcGlzLmNvbS90b2tlbiIsImV4cCI6MTcwMDAwMzYwMCwiaWF0IjoxNzAwMDAwMDAwfQ.c2ln'')]]"
proof -
  have n: "(1700000000::int) = Date_now demo_platform (clock_reads demo_service) div 1000"
    by (simp add: demo_platform_def)
  have m: "\<not> (\<exists>c. priv_accessToken demo_service = Some c \<and> c \<noteq> []
              \<and> 1700000000 + 300 < priv_tokenExpiry demo_service)"
    by (simp add: demo_service_def)
  have e: "own_property (priv_serviceAccount demo_service) ''client_email'' = JStr ''a@b.c''"
    and k: "own_property (priv_serviceAccount demo_service) ''private_key'' = JStr ''key''"
    by (simp_all add: demo_service_def demo_account_def)
  have s: "sign_RS256 demo_platform ''key'' (toSign (priv_serviceAccount demo_service) 1700000000)
             = Inr ''sig''"
    by (simp add: demo_platform_def)
  have q: \<open>quote ''a@b.c'' = ''"a@b.c"''\<close>
    by (simp add: quote_def escape_char_def)
  have d: "decimal (1700000000 + 3600) = ''1700003600''" "decimal 1700000000 = ''1700000000''"
    by (simp_all add: decimal_def digits.simps digit_def)
  have g: "base64UrlEncode ''sig'' = ''c2ln''"
    by (simp add: base64UrlEncode_def b64_def b64_alphabet_def alphanumerics_def
        replace_char_def strip_trailing_equals_def)
  have r: "requests demo_service = []"
    by (simp add: demo_service_def)
  from getAccessToken_jwt [OF n m e k s]
  obtain header claims sig where
    x: "requests (snd (getAccessToken demo_platform demo_service)) =
       requests demo_service @
         [\<lparr>req_url = ''https://oauth2.googleapis.com/token'', req_method = ''POST'',
           req_headers = [(''Content-Type'', ''application/x-www-form-urlencoded'')],
           req_body = URLSearchParams
             [(''grant_type'', ''urn:ietf:params:oauth:grant-type:jwt-bearer''),
              (''assertion'', header @ ''.'' @ claims @ ''.'' @ sig)]\<rparr>]"
    and h: "header = ''eyJhbGciOiJSUzI1NiIsInR5cCI6IkpXVCJ9''"
    and c: \<open>claims = base64UrlEncode (TextEncoder_encode
          (''{"iss":'' @ quote ''a@b.c''
            @ '',"scope":"https://www.googleapis.com/auth/firebase.messaging"''
            @ '',"aud":"https://oauth2.googleapis.com/token"''
            @ '',"exp":'' @ decimal (1700000000 + 3600) @ '',"iat":'' @ decimal 1700000000 @ ''}''))\<close>
    and g': "sig = base64UrlEncode ''sig''"
    by blast
  have c': "claims = ''eyJpc3MiOiJhQGIuYyIsInNjb3BlIjoiaHR0cHM6Ly93d3cuZ29vZ2xlYXBpcy5jb20vYXV0aC9maXJlYmFzZS5tZXNzYWdpbmciLCJhdWQiOiJodHRwczovL29hdXRoMi5nb29nbGVhcGlzLmNvbS90b2tlbiIsImV4cCI6MTcwMDAwMzYwMCwiaWF0IjoxNzAwMDAwMDAwfQ''"
    unfolding c q d using demo_claims by simp
  show ?thesis
    unfolding x r h c' g' g by simp
qed

end
